theory Spec2Isabelle
  imports Complex_Main "HOL-Library.Sublist" "HOL-Library.Log_Nat"
begin

section \<open>Python floats\<close>

text \<open>
  The \<^verbatim>\<open>float\<close> fields of the request bodies and the \<^verbatim>\<open>Float\<close> columns hold Python floats:
  IEEE 754 binary64 numbers. \<open>Finite m e\<close> is the number \<open>m\<close> times 2 to the power \<open>e\<close>; a
  double is such a number with an odd \<open>m\<close> of at most 53 bits and \<open>e\<close> from -1074 on, below 2
  to the power 1024, or zero, written \<open>Finite 0 0\<close>. The two zeros of the format, which
  Python's \<^verbatim>\<open>==\<close> and truth test do not tell apart, are one value here.
\<close>

datatype pyfloat = Finite int int | PosInf | NegInf | NaN

text \<open>The canonical form of \<open>m\<close> times 2 to the \<open>e\<close>: factors 2 move from \<open>m\<close> into the exponent.\<close>

function strip :: "int \<Rightarrow> int \<Rightarrow> int \<times> int" where
  "strip m e = (if m = 0 then (0, 0) else if even m then strip (m div 2) (e + 1) else (m, e))"
  by pat_completeness auto
termination
  by (relation "measure (\<lambda>(m, e). nat \<bar>m\<bar>)") auto

declare strip.simps [simp del]

text \<open>\<open>a\<close> divided by 2 to the \<open>k\<close>, rounded to the nearest integer, a tie to the even one.\<close>

definition round_half_even :: "int \<Rightarrow> nat \<Rightarrow> int" where
  "round_half_even a k =
     (let q = a div 2 ^ k; r = a mod 2 ^ k
      in if 2 * r < 2 ^ k then q
         else if 2 ^ k < 2 * r then q + 1
         else if even q then q else q + 1)"

text \<open>
  The double nearest to \<open>p\<close> times 2 to the \<open>e\<close> (round to nearest, ties to even): \<open>k\<close> is the
  number of low bits that do not fit, 53 bits being kept and no bit below 2 to the -1074;
  a result of 2 to the 1024 or more is an infinity.
\<close>

definition round_double :: "int \<Rightarrow> int \<Rightarrow> pyfloat" where
  "round_double p e =
     (let a = \<bar>p\<bar>;
          k = max (bitlen a - 53) (- 1074 - e);
          m = (if k \<le> 0 then a else round_half_even a (nat k));
          e' = (if k \<le> 0 then e else e + k)
      in if m = 0 then Finite 0 0
         else if 1024 < bitlen m + e' then (if p < 0 then NegInf else PosInf)
         else (case strip (if p < 0 then - m else m) e' of (m', e'') \<Rightarrow> Finite m' e''))"

fun fneg :: "pyfloat \<Rightarrow> pyfloat" where
  "fneg (Finite m e) = Finite (- m) e"
| "fneg PosInf = NegInf"
| "fneg NegInf = PosInf"
| "fneg NaN = NaN"

text \<open>Python's \<^verbatim>\<open>x + y\<close>, \<^verbatim>\<open>x - y\<close> and \<^verbatim>\<open>x * y\<close> on floats: the exact result, rounded.\<close>

fun fadd :: "pyfloat \<Rightarrow> pyfloat \<Rightarrow> pyfloat" where
  "fadd NaN y = NaN"
| "fadd x NaN = NaN"
| "fadd PosInf NegInf = NaN"
| "fadd NegInf PosInf = NaN"
| "fadd PosInf y = PosInf"
| "fadd NegInf y = NegInf"
| "fadd x PosInf = PosInf"
| "fadd x NegInf = NegInf"
| "fadd (Finite a ea) (Finite b eb) =
     (let e = min ea eb in round_double (a * 2 ^ nat (ea - e) + b * 2 ^ nat (eb - e)) e)"

definition fsub :: "pyfloat \<Rightarrow> pyfloat \<Rightarrow> pyfloat" where
  "fsub x y = fadd x (fneg y)"

fun fmul :: "pyfloat \<Rightarrow> pyfloat \<Rightarrow> pyfloat" where
  "fmul NaN y = NaN"
| "fmul x NaN = NaN"
| "fmul (Finite a ea) (Finite b eb) = round_double (a * b) (ea + eb)"
| "fmul (Finite a ea) y = (if a = 0 then NaN else if a < 0 then fneg y else y)"
| "fmul x (Finite b eb) = (if b = 0 then NaN else if b < 0 then fneg x else x)"
| "fmul PosInf y = y"
| "fmul NegInf y = fneg y"

text \<open>\<^verbatim>\<open>x == 0\<close>, which is also \<^verbatim>\<open>not x\<close>.\<close>

definition fis_zero :: "pyfloat \<Rightarrow> bool" where
  "fis_zero x = (case x of Finite m e \<Rightarrow> m = 0 | _ \<Rightarrow> False)"

text \<open>The values a Python float can have.\<close>

fun is_double :: "pyfloat \<Rightarrow> bool" where
  "is_double (Finite m e) =
     (m = 0 \<and> e = 0 \<or>
      odd m \<and> bitlen \<bar>m\<bar> \<le> 53 \<and> - 1074 \<le> e \<and> bitlen \<bar>m\<bar> + e \<le> 1024)"
| "is_double x = True"

text \<open>The real number a finite float stands for (0 for the infinities and NaN, which have none).\<close>

definition float_value :: "pyfloat \<Rightarrow> real" where
  "float_value x =
     (case x of
        Finite m e \<Rightarrow>
          (if 0 \<le> e then real_of_int m * 2 ^ nat e else real_of_int m / 2 ^ nat (- e))
      | _ \<Rightarrow> 0)"

section \<open>The relational schema (models.py)\<close>

text \<open>
  Every table is the list of its rows in insertion order; a query's \<^verbatim>\<open>.first()\<close> is the
  first row of that list that passes the filter, and a row object is its position in the
  list. Primary keys and foreign keys are natural numbers. Timestamps are readings of a
  clock, given as natural numbers. The audit columns \<^verbatim>\<open>created_at\<close>/\<^verbatim>\<open>updated_at\<close> of Bot,
  Portfolio and Market, which no handler reads, are left out, as is the users table: the
  handlers below only use \<^verbatim>\<open>current_user.id\<close>, which authentication supplies.

  A \<^verbatim>\<open>Float\<close> column is taken to store the float written to it and a \<^verbatim>\<open>String\<close> column the
  string written to it, and to return them as they were written. A field has an option type
  where a handler leaves the column empty or can write \<^verbatim>\<open>None\<close> to it; the balance of a
  portfolio row and the symbol and price of a market row, which the handlers read, are
  taken to be filled in.
\<close>

record bot =
  b_id :: nat
  b_name :: string
  b_status :: string
  b_strategy :: string
  b_config :: string
  b_owner_id :: nat

record trade =
  t_id :: nat
  t_symbol :: string
  t_side :: "string option"
  t_order_type :: string
  t_amount :: pyfloat
  t_price :: "pyfloat option"
  t_status :: string
  t_created_at :: nat
  t_executed_at :: "nat option"
  t_user_id :: nat
  t_bot_id :: "nat option"

record portfolio =
  p_id :: nat
  p_asset :: string
  p_balance :: pyfloat
  p_user_id :: nat

record market =
  m_id :: nat
  m_symbol :: string
  m_base_asset :: string
  m_quote_asset :: string
  m_price :: pyfloat
  m_volume_24h :: pyfloat
  m_change_24h :: pyfloat

text \<open>The committed content of the database.\<close>

record db =
  bots :: "bot list"
  trades :: "trade list"
  portfolios :: "portfolio list"
  markets :: "market list"

text \<open>
  The database assigns the primary key of an inserted row: one more than the largest key
  of the table.
\<close>

definition fresh_id :: "nat list \<Rightarrow> nat" where
  "fresh_id ids = Suc (fold max ids 0)"

text \<open>The position of the first row that passes a filter: the row object a query returns.\<close>

fun first_index :: "('a \<Rightarrow> bool) \<Rightarrow> 'a list \<Rightarrow> nat option" where
  "first_index P [] = None"
| "first_index P (x # xs) = (if P x then Some 0 else map_option Suc (first_index P xs))"

text \<open>The queries of the handlers, each ending in \<^verbatim>\<open>.first()\<close>.\<close>

definition find_market :: "string \<Rightarrow> market list \<Rightarrow> market option" where
  "find_market sym_v ms = find (\<lambda>m. m_symbol m = sym_v) ms"

definition find_portfolio :: "nat \<Rightarrow> string \<Rightarrow> portfolio list \<Rightarrow> nat option" where
  "find_portfolio uid a ps = first_index (\<lambda>p. p_user_id p = uid \<and> p_asset p = a) ps"

definition find_bot :: "nat \<Rightarrow> bot list \<Rightarrow> nat option" where
  "find_bot bot_id bs = first_index (\<lambda>b. b_id b = bot_id) bs"

definition find_owned_bot :: "nat \<Rightarrow> nat \<Rightarrow> bot list \<Rightarrow> nat option" where
  "find_owned_bot uid bot_id bs = first_index (\<lambda>b. b_id b = bot_id \<and> b_owner_id b = uid) bs"

section \<open>Requests, responses and failures\<close>

text \<open>\<^verbatim>\<open>TradeCreate\<close>: the body of an order submission, after pydantic has typed its fields.\<close>

record trade_create =
  symbol :: string
  side :: string
  order_type :: string
  amount :: pyfloat
  price :: "pyfloat option"

text \<open>
  A handler either returns or raises. \<^verbatim>\<open>HTTPException\<close> carries the status code and the
  detail message; \<^verbatim>\<open>ValueError\<close> is the unhandled exception of a tuple unpacking whose
  right-hand side does not have exactly two elements (the client then sees a server error).
\<close>

datatype failure = HTTPException nat string | ValueError

record bot_action_response =
  success :: bool
  message :: string
  status :: string

record portfolio_item =
  pi_asset :: string
  pi_balance :: pyfloat
  pi_value_usd :: "pyfloat option"

section \<open>Order execution and portfolio settlement (routers/trading.py)\<close>

text \<open>Python's \<^verbatim>\<open>s.split("/")\<close>: the pieces of \<open>s\<close> between the occurrences of the separator.\<close>

fun split_sep :: "char \<Rightarrow> string \<Rightarrow> string list" where
  "split_sep c [] = [[]]"
| "split_sep c (x # xs) =
     (if x = c then [] # split_sep c xs
      else (case split_sep c xs of
              [] \<Rightarrow> [[x]]
            | p # ps \<Rightarrow> (x # p) # ps))"

text \<open>\<^verbatim>\<open>row.balance = f(row.balance)\<close> on the row object at position \<open>i\<close> of the table.\<close>

definition set_balance ::
  "nat \<Rightarrow> (pyfloat \<Rightarrow> pyfloat) \<Rightarrow> portfolio list \<Rightarrow> portfolio list" where
  "set_balance i f ps = ps[i := (ps ! i)\<lparr>p_balance := f (p_balance (ps ! i))\<rparr>]"

text \<open>
  Lines 102 to 128 of \<^verbatim>\<open>create_order\<close>: both portfolio rows are looked up first, a missing
  one is then created with balance 0 (the base row before the quote row), and the two row
  objects are updated in turn, in float arithmetic. A row object is its position in the
  table, so that two lookups returning the same row update it twice, and two rows created
  for the same asset stay two rows.
\<close>

definition update_portfolio ::
  "nat \<Rightarrow> string \<Rightarrow> string \<Rightarrow> string \<Rightarrow> pyfloat \<Rightarrow> pyfloat \<Rightarrow> portfolio list
     \<Rightarrow> portfolio list" where
  "update_portfolio uid base_asset quote_asset sd amt prc ps =
     (let base_found = find_portfolio uid base_asset ps;
          quote_found = find_portfolio uid quote_asset ps;
          (ps1, base_portfolio) =
            (case base_found of
               Some i \<Rightarrow> (ps, i)
             | None \<Rightarrow>
                 (ps @ [\<lparr>p_id = fresh_id (map p_id ps), p_asset = base_asset,
                         p_balance = Finite 0 0, p_user_id = uid\<rparr>], length ps));
          (ps2, quote_portfolio) =
            (case quote_found of
               Some i \<Rightarrow> (ps1, i)
             | None \<Rightarrow>
                 (ps1 @ [\<lparr>p_id = fresh_id (map p_id ps1), p_asset = quote_asset,
                          p_balance = Finite 0 0, p_user_id = uid\<rparr>], length ps1))
      in if sd = ''buy''
         then set_balance quote_portfolio (\<lambda>b. fsub b (fmul amt prc))
                (set_balance base_portfolio (\<lambda>b. fadd b amt) ps2)
         else set_balance quote_portfolio (\<lambda>b. fadd b (fmul amt prc))
                (set_balance base_portfolio (\<lambda>b. fsub b amt) ps2))"

definition side_detail :: string where
  "side_detail =
     ''Side must be '' @ [CHR 0x27] @ ''buy'' @ [CHR 0x27] @ '' or '' @ [CHR 0x27] @ ''sell''
       @ [CHR 0x27]"

definition order_type_detail :: string where
  "order_type_detail =
     ''Order type must be '' @ [CHR 0x27] @ ''market'' @ [CHR 0x27] @ '' or '' @ [CHR 0x27]
       @ ''limit'' @ [CHR 0x27]"

text \<open>\<^verbatim>\<open>not trade.price\<close>: an absent price and a price equal to 0 are both falsy.\<close>

definition price_missing :: "pyfloat option \<Rightarrow> bool" where
  "price_missing p = (case p of None \<Rightarrow> True | Some x \<Rightarrow> fis_zero x)"

text \<open>
  \<^verbatim>\<open>create_order\<close>, for the authenticated user \<open>uid\<close>. \<open>now_db\<close> is the database clock that
  fills \<^verbatim>\<open>created_at\<close>, \<open>now\<close> the reading of \<^verbatim>\<open>datetime.now()\<close>. The returned database is the
  committed one: the first commit stores the new row with status open; what the handler
  changes after it is stored by the second commit, and lost when the handler raises before
  reaching it (the session is discarded with the request).
\<close>

definition create_order ::
  "nat \<Rightarrow> nat \<Rightarrow> nat \<Rightarrow> trade_create \<Rightarrow> db \<Rightarrow> (failure + trade) \<times> db" where
  "create_order now_db now uid tr d =
     (if side tr \<notin> set [''buy'', ''sell'']
      then (Inl (HTTPException 400 side_detail), d)
      else if order_type tr \<notin> set [''market'', ''limit'']
      then (Inl (HTTPException 400 order_type_detail), d)
      else if order_type tr = ''limit'' \<and> price_missing (price tr)
      then (Inl (HTTPException 400 ''Price is required for limit orders''), d)
      else
        (case find_market (symbol tr) (markets d) of
           None \<Rightarrow> (Inl (HTTPException 400 (''Market '' @ symbol tr @ '' not found'')), d)
         | Some mkt \<Rightarrow>
             (let new_trade =
                    \<lparr>t_id = fresh_id (map t_id (trades d)),
                     t_symbol = symbol tr,
                     t_side = Some (side tr),
                     t_order_type = order_type tr,
                     t_amount = amount tr,
                     t_price = (if order_type tr = ''limit'' then price tr
                                else Some (m_price mkt)),
                     t_status = ''open'',
                     t_created_at = now_db,
                     t_executed_at = None,
                     t_user_id = uid,
                     t_bot_id = None\<rparr>;
                  d1 = d\<lparr>trades := trades d @ [new_trade]\<rparr>
              in if order_type tr = ''market''
                 then
                   (case split_sep CHR ''/'' (symbol tr) of
                      [base_asset, quote_asset] \<Rightarrow>
                        (let filled = new_trade\<lparr>t_status := ''filled'',
                                                t_executed_at := Some now\<rparr>
                         in (Inr filled,
                             d1\<lparr>trades := trades d @ [filled],
                                portfolios :=
                                  update_portfolio uid base_asset quote_asset (side tr)
                                    (amount tr) (m_price mkt) (portfolios d1)\<rparr>))
                    | _ \<Rightarrow> (Inl ValueError, d1))
                 else (Inr new_trade, d1))))"

text \<open>
  \<^verbatim>\<open>get_portfolio\<close>: the loop over the user's rows, skipping a balance equal to 0 and
  valuing the others by the first market row whose symbol is the asset followed by
  \<^verbatim>\<open>/USD\<close>, when there is one.
\<close>

fun portfolio_items :: "market list \<Rightarrow> portfolio list \<Rightarrow> portfolio_item list" where
  "portfolio_items ms [] = []"
| "portfolio_items ms (item # rest) =
     (if fis_zero (p_balance item) then portfolio_items ms rest
      else \<lparr>pi_asset = p_asset item,
            pi_balance = p_balance item,
            pi_value_usd =
              (case find_market (p_asset item @ ''/USD'') ms of
                 None \<Rightarrow> None
               | Some mkt \<Rightarrow> Some (fmul (p_balance item) (m_price mkt)))\<rparr>
           # portfolio_items ms rest)"

definition get_portfolio :: "nat \<Rightarrow> db \<Rightarrow> portfolio_item list" where
  "get_portfolio uid d =
     portfolio_items (markets d) (filter (\<lambda>p. p_user_id p = uid) (portfolios d))"

section \<open>Bots (routers/bots.py)\<close>

text \<open>
  The value of \<^verbatim>\<open>json.loads\<close>: a JSON number without fraction or exponent is a Python
  \<^verbatim>\<open>int\<close>, any other number a float, and an object is the Python dictionary, as the list of
  its items.
\<close>

datatype json =
    JNull
  | JBool bool
  | JInt int
  | JFloat pyfloat
  | JString string
  | JArray "json list"
  | JObject "(string \<times> json) list"

text \<open>
  What the database layer does with a value that is not a string where a \<^verbatim>\<open>String\<close> column
  is compared or written: it raises, it binds the value as \<^verbatim>\<open>NULL\<close>, or it binds it as a
  text. \<open>Raises c\<close> tells with \<open>c\<close> whether the session can still commit afterwards: the
  handler of the exception commits, and when that commit raises as well nothing more is
  stored.
\<close>

datatype binding = Raises bool | Null | Text string

text \<open>
  The bot task relies on four things that this source does not define. They are
  parameters of the functions below: the parser \<^verbatim>\<open>json.loads\<close>, whose result \<open>None\<close> stands
  for the exception it raises on a text that is not JSON; Python's \<^verbatim>\<open>float\<close> on a string,
  \<open>None\<close> when it raises; and how the database layer binds a value that is not a string, in
  the market query and in the insertion of the trade row.
\<close>

record env =
  json_loads :: "string \<Rightarrow> json option"
  str_float :: "string \<Rightarrow> pyfloat option"
  bind_query :: "json \<Rightarrow> binding"
  bind_insert :: "json \<Rightarrow> binding"

text \<open>\<^verbatim>\<open>config.get(key, default)\<close>; on a value that is no dictionary the call raises.\<close>

definition config_get :: "json \<Rightarrow> string \<Rightarrow> json \<Rightarrow> json option" where
  "config_get config k dflt =
     (case config of
        JObject items \<Rightarrow> (case map_of items k of None \<Rightarrow> Some dflt | Some v \<Rightarrow> Some v)
      | _ \<Rightarrow> None)"

text \<open>
  \<^verbatim>\<open>float(v)\<close>: a float is itself, an \<^verbatim>\<open>int\<close> is rounded to the nearest double and raises
  \<^verbatim>\<open>OverflowError\<close> when that is no finite double, a boolean is 1.0 or 0.0, a string is
  parsed, anything else raises.
\<close>

definition py_float :: "(string \<Rightarrow> pyfloat option) \<Rightarrow> json \<Rightarrow> pyfloat option" where
  "py_float float_of v =
     (case v of
        JFloat x \<Rightarrow> Some x
      | JInt n \<Rightarrow>
          (case round_double n 0 of
             Finite m e \<Rightarrow> Some (Finite m e)
           | _ \<Rightarrow> None)
      | JBool b \<Rightarrow> Some (if b then Finite 1 0 else Finite 0 0)
      | JString s \<Rightarrow> float_of s
      | _ \<Rightarrow> None)"

text \<open>
  The value bound for a \<^verbatim>\<open>String\<close> column: a string is bound as it is, any other value as
  the database layer decides. The source passes the value on without looking at its type.
\<close>

definition column_text :: "(json \<Rightarrow> binding) \<Rightarrow> json \<Rightarrow> binding" where
  "column_text bind_of v = (case v of JString s \<Rightarrow> Text s | _ \<Rightarrow> bind_of v)"

text \<open>
  Lines 51 to 54 of \<^verbatim>\<open>run_bot_task\<close>: symbol, side and amount of the simulated trade, with
  the defaults \<^verbatim>\<open>BTC/USD\<close>, \<^verbatim>\<open>buy\<close> and 0.01; \<open>None\<close> when one of the steps raises.
\<close>

definition bot_trade_params :: "env \<Rightarrow> string \<Rightarrow> (json \<times> json \<times> pyfloat) option" where
  "bot_trade_params ev config_text =
     (case json_loads ev config_text of
        None \<Rightarrow> None
      | Some config \<Rightarrow>
          (case config_get config ''symbol'' (JString ''BTC/USD'') of
             None \<Rightarrow> None
           | Some symbol_v \<Rightarrow>
               (case config_get config ''side'' (JString ''buy'') of
                  None \<Rightarrow> None
                | Some side_v \<Rightarrow>
                    (case config_get config ''amount''
                            (JFloat (Finite 5764607523034235 (- 59))) of
                       None \<Rightarrow> None
                     | Some a \<Rightarrow>
                         (case py_float (str_float ev) a of
                            None \<Rightarrow> None
                          | Some amt \<Rightarrow> Some (symbol_v, side_v, amt))))))"

text \<open>
  \<^verbatim>\<open>run_bot_task\<close>, the background task of a bot start. The bot row is looked up by its key
  alone; its status is committed as running before the \<^verbatim>\<open>try\<close> block, and as error when
  the block raises and the session can still commit. The symbol is bound in the market
  query: bound as \<^verbatim>\<open>NULL\<close> it matches no row, and a value bound as a text is stored as that
  text. The side is bound when the trade row is inserted. No portfolio row is read or
  written.
\<close>

definition run_bot_task :: "env \<Rightarrow> nat \<Rightarrow> nat \<Rightarrow> nat \<Rightarrow> db \<Rightarrow> db" where
  "run_bot_task ev now_db now bot_id d =
     (case find_bot bot_id (bots d) of
        None \<Rightarrow> d
      | Some i \<Rightarrow>
          (let bt = bots d ! i;
               d1 = d\<lparr>bots := (bots d)[i := bt\<lparr>b_status := ''running''\<rparr>]\<rparr>;
               failed = d1\<lparr>bots := (bots d)[i := bt\<lparr>b_status := ''error''\<rparr>]\<rparr>
           in case bot_trade_params ev (b_config bt) of
                None \<Rightarrow> failed
              | Some (symbol_v, side_v, amt) \<Rightarrow>
                  (case column_text (bind_query ev) symbol_v of
                     Raises c \<Rightarrow> if c then failed else d1
                   | Null \<Rightarrow> d1
                   | Text symbol_text \<Rightarrow>
                       (case find_market symbol_text (markets d1) of
                          None \<Rightarrow> d1
                        | Some mkt \<Rightarrow>
                            (case column_text (bind_insert ev) side_v of
                               Raises c \<Rightarrow> if c then failed else d1
                             | side_b \<Rightarrow>
                                 d1\<lparr>trades := trades d1 @
                                      [\<lparr>t_id = fresh_id (map t_id (trades d1)),
                                        t_symbol = symbol_text,
                                        t_side = (case side_b of Text s \<Rightarrow> Some s
                                                  | _ \<Rightarrow> None),
                                        t_order_type = ''market'',
                                        t_amount = amt,
                                        t_price = Some (m_price mkt),
                                        t_status = ''filled'',
                                        t_created_at = now_db,
                                        t_executed_at = Some now,
                                        t_user_id = b_owner_id bt,
                                        t_bot_id = Some (b_id bt)\<rparr>]\<rparr>)))))"

text \<open>
  \<^verbatim>\<open>start_bot\<close> returns its response, the background tasks it has added (the bot keys
  handed to \<^verbatim>\<open>run_bot_task\<close>) and the database, in which it writes nothing.
\<close>

definition start_bot ::
  "nat \<Rightarrow> nat \<Rightarrow> db \<Rightarrow> (failure + bot_action_response) \<times> nat list \<times> db" where
  "start_bot uid bot_id d =
     (case find_owned_bot uid bot_id (bots d) of
        None \<Rightarrow> (Inl (HTTPException 404 ''Bot not found''), [], d)
      | Some i \<Rightarrow>
          if b_status (bots d ! i) = ''running''
          then (Inr \<lparr>success = False, message = ''Bot is already running'',
                     status = b_status (bots d ! i)\<rparr>, [], d)
          else (Inr \<lparr>success = True, message = ''Bot started successfully'',
                     status = ''starting''\<rparr>, [bot_id], d))"

definition stop_bot :: "nat \<Rightarrow> nat \<Rightarrow> db \<Rightarrow> (failure + bot_action_response) \<times> db" where
  "stop_bot uid bot_id d =
     (case find_owned_bot uid bot_id (bots d) of
        None \<Rightarrow> (Inl (HTTPException 404 ''Bot not found''), d)
      | Some i \<Rightarrow>
          if b_status (bots d ! i) = ''stopped''
          then (Inr \<lparr>success = False, message = ''Bot is already stopped'',
                     status = b_status (bots d ! i)\<rparr>, d)
          else (Inr \<lparr>success = True, message = ''Bot stopped successfully'',
                     status = ''stopped''\<rparr>,
                d\<lparr>bots := (bots d)[i := (bots d ! i)\<lparr>b_status := ''stopped''\<rparr>]\<rparr>))"

section \<open>The operations that write, as one transition system\<close>

text \<open>
  The operations of the trading core and of the bot start and stop that can change the
  database. A background task may run at any later moment, so the system lets it run at
  any point of a history, for any bot key.
\<close>

datatype operation =
    CreateOrder nat nat nat trade_create
  | RunBotTask nat nat nat
  | StartBot nat nat
  | StopBot nat nat

fun perform :: "env \<Rightarrow> operation \<Rightarrow> db \<Rightarrow> db" where
  "perform ev (CreateOrder now_db now uid tr) d = snd (create_order now_db now uid tr d)"
| "perform ev (RunBotTask now_db now bot_id) d = run_bot_task ev now_db now bot_id d"
| "perform ev (StartBot uid bot_id) d = snd (snd (start_bot uid bot_id d))"
| "perform ev (StopBot uid bot_id) d = snd (stop_bot uid bot_id d)"

fun perform_all :: "env \<Rightarrow> operation list \<Rightarrow> db \<Rightarrow> db" where
  "perform_all ev [] d = d"
| "perform_all ev (x # xs) d = perform_all ev xs (perform ev x d)"

section \<open>Quantities the properties speak of\<close>

text \<open>
  The symbol \<open>s\<close> resolves to the market row at position \<open>i\<close>: the first row of the table
  with that symbol.
\<close>

definition resolves_at :: "string \<Rightarrow> market list \<Rightarrow> nat \<Rightarrow> bool" where
  "resolves_at s ms i \<longleftrightarrow>
     i < length ms \<and> m_symbol (ms ! i) = s \<and> (\<forall>j<i. m_symbol (ms ! j) \<noteq> s)"

text \<open>
  The balance a user holds in an asset, as a lookup sees it: the balance of the first
  portfolio row of that user and asset, and 0 when there is none (a missing row is created
  with balance 0).
\<close>

definition entry_balance :: "nat \<Rightarrow> string \<Rightarrow> portfolio list \<Rightarrow> pyfloat" where
  "entry_balance uid a ps =
     (case find (\<lambda>p. p_user_id p = uid \<and> p_asset p = a) ps of
        None \<Rightarrow> Finite 0 0
      | Some p \<Rightarrow> p_balance p)"

definition has_entry :: "nat \<Rightarrow> string \<Rightarrow> portfolio list \<Rightarrow> bool" where
  "has_entry uid a ps \<longleftrightarrow> (\<exists>p\<in>set ps. p_user_id p = uid \<and> p_asset p = a)"

text \<open>The portfolio rows of a user, as pairs of asset and balance, in table order.\<close>

definition holdings :: "nat \<Rightarrow> portfolio list \<Rightarrow> (string \<times> pyfloat) list" where
  "holdings uid ps = map (\<lambda>p. (p_asset p, p_balance p)) (filter (\<lambda>p. p_user_id p = uid) ps)"

definition new_row :: "nat \<Rightarrow> string \<Rightarrow> pyfloat \<Rightarrow> nat \<Rightarrow> portfolio" where
  "new_row k a b uid = \<lparr>p_id = k, p_asset = a, p_balance = b, p_user_id = uid\<rparr>"

text \<open>The trade row that \<^verbatim>\<open>create_order\<close> inserts, before it is filled.\<close>

definition placed_row :: "nat \<Rightarrow> nat \<Rightarrow> trade_create \<Rightarrow> market \<Rightarrow> db \<Rightarrow> trade" where
  "placed_row now_db uid tr mkt d =
     \<lparr>t_id = fresh_id (map t_id (trades d)), t_symbol = symbol tr, t_side = Some (side tr),
      t_order_type = order_type tr, t_amount = amount tr,
      t_price = (if order_type tr = ''limit'' then price tr else Some (m_price mkt)),
      t_status = ''open'', t_created_at = now_db, t_executed_at = None,
      t_user_id = uid, t_bot_id = None\<rparr>"

text \<open>The trade row that \<^verbatim>\<open>run_bot_task\<close> inserts.\<close>

definition bot_row ::
  "nat \<Rightarrow> nat \<Rightarrow> bot \<Rightarrow> string \<Rightarrow> string option \<Rightarrow> pyfloat \<Rightarrow> market \<Rightarrow> db
     \<Rightarrow> trade" where
  "bot_row now_db now bt sym_v sd amt mkt d =
     \<lparr>t_id = fresh_id (map t_id (trades d)), t_symbol = sym_v, t_side = sd,
      t_order_type = ''market'', t_amount = amt, t_price = Some (m_price mkt),
      t_status = ''filled'', t_created_at = now_db, t_executed_at = Some now,
      t_user_id = b_owner_id bt, t_bot_id = Some (b_id bt)\<rparr>"

text \<open>The value a configuration object gives for a key, or the default.\<close>

definition item_or :: "(string \<times> json) list \<Rightarrow> string \<Rightarrow> json \<Rightarrow> json" where
  "item_or items k dflt = (case map_of items k of None \<Rightarrow> dflt | Some v \<Rightarrow> v)"

section \<open>A small database for the concrete instances\<close>

text \<open>
  Three markets: \<^verbatim>\<open>ETH/BTC\<close> at 0.0625, \<^verbatim>\<open>BTC/USD\<close> at 100 and \<^verbatim>\<open>BTCUSD\<close>, a symbol without
  separator, at 90. The floats used below: 0.0625 is \<open>Finite 1 (-4)\<close>, 100 is
  \<open>Finite 25 2\<close>, 90 is \<open>Finite 45 1\<close>, 1 is \<open>Finite 1 0\<close>, 2 is \<open>Finite 1 1\<close>, 5 is
  \<open>Finite 5 0\<close>, 120 is \<open>Finite 15 3\<close>, 200 is \<open>Finite 25 3\<close>, 0.01 is
  \<open>Finite 5764607523034235 (-59)\<close> and 0.1 is \<open>Finite 3602879701896397 (-55)\<close>.
\<close>

definition eth_btc :: market where
  "eth_btc = \<lparr>m_id = 1, m_symbol = ''ETH/BTC'', m_base_asset = ''ETH'', m_quote_asset = ''BTC'',
     m_price = Finite 1 (- 4), m_volume_24h = Finite 0 0, m_change_24h = Finite 0 0\<rparr>"

definition btc_usd :: market where
  "btc_usd = \<lparr>m_id = 2, m_symbol = ''BTC/USD'', m_base_asset = ''BTC'', m_quote_asset = ''USD'',
     m_price = Finite 25 2, m_volume_24h = Finite 0 0, m_change_24h = Finite 0 0\<rparr>"

definition btcusd :: market where
  "btcusd = \<lparr>m_id = 3, m_symbol = ''BTCUSD'', m_base_asset = ''BTC'', m_quote_asset = ''USD'',
     m_price = Finite 45 1, m_volume_24h = Finite 0 0, m_change_24h = Finite 0 0\<rparr>"

definition demo_bot :: bot where
  "demo_bot = \<lparr>b_id = 1, b_name = ''demo'', b_status = ''stopped'', b_strategy = ''dca'',
     b_config = ''{}'', b_owner_id = 7\<rparr>"

definition demo_db :: db where
  "demo_db = \<lparr>bots = [demo_bot], trades = [], portfolios = [],
     markets = [eth_btc, btc_usd, btcusd]\<rparr>"

definition running_db :: db where
  "running_db = demo_db\<lparr>bots := [demo_bot\<lparr>b_status := ''running''\<rparr>]\<rparr>"

text \<open>
  The configuration text \<^verbatim>\<open>{"amount": 1000...0}\<close> with 309 zeros: the amount is the integer
  10 to the power 309, which is beyond the doubles.
\<close>

definition huge_config :: string where
  "huge_config =
     ''{'' @ [CHR 0x22] @ ''amount'' @ [CHR 0x22] @ '': 1'' @ replicate 309 CHR ''0'' @ ''}''"

text \<open>The bot with a configuration that is a JSON list, and with that amount.\<close>

definition list_db :: db where
  "list_db = demo_db\<lparr>bots := [demo_bot\<lparr>b_config := ''[]''\<rparr>]\<rparr>"

definition huge_db :: db where
  "huge_db = demo_db\<lparr>bots := [demo_bot\<lparr>b_config := huge_config\<rparr>]\<rparr>"

text \<open>
  A database in which user 7 holds 2 BTC, a USD row with balance 0 and 5 ETH, and user 8
  holds 1 BTC; the only USD market is the one of BTC.
\<close>

definition wallet_db :: db where
  "wallet_db = demo_db\<lparr>portfolios :=
     [new_row 1 ''BTC'' (Finite 1 1) 7, new_row 2 ''USD'' (Finite 0 0) 7,
      new_row 3 ''ETH'' (Finite 5 0) 7, new_row 4 ''BTC'' (Finite 1 0) 8]\<rparr>"

text \<open>A database in which user 7 holds 0.1 BTC.\<close>

definition tenth_db :: db where
  "tenth_db = demo_db\<lparr>portfolios := [new_row 1 ''BTC'' (Finite 3602879701896397 (- 55)) 7]\<rparr>"

definition submission ::
  "string \<Rightarrow> string \<Rightarrow> string \<Rightarrow> pyfloat \<Rightarrow> pyfloat option \<Rightarrow> trade_create" where
  "submission sym_v sd ty amt prc =
     \<lparr>symbol = sym_v, side = sd, order_type = ty, amount = amt, price = prc\<rparr>"

text \<open>
  A parser that knows the three configuration texts used here, a string conversion that
  always raises, and a database layer that raises on every value that is not a string.
\<close>

definition demo_loads :: "string \<Rightarrow> json option" where
  "demo_loads s =
     (if s = ''{}'' then Some (JObject [])
      else if s = ''[]'' then Some (JArray [])
      else if s = huge_config then Some (JObject [(''amount'', JInt (10 ^ 309))])
      else None)"

definition demo_env :: env where
  "demo_env = \<lparr>json_loads = demo_loads, str_float = (\<lambda>s. None),
     bind_query = (\<lambda>v. Raises True), bind_insert = (\<lambda>v. Raises False)\<rparr>"

section \<open>Rounding to a double\<close>

declare fadd.simps [simp del] fmul.simps [simp del]

lemma strip_zero: "strip 0 e = (0, 0)"
  by (subst strip.simps) simp

lemma strip_odd: "odd m \<Longrightarrow> strip m e = (m, e)"
  by (subst strip.simps) auto

lemma strip_pow2: "odd m \<Longrightarrow> strip (m * 2 ^ j) e = (m, e + int j)"
proof (induction j arbitrary: e)
  case 0
  then show ?case by (simp add: strip_odd)
next
  case (Suc j)
  from Suc.prems have nz: "m * 2 ^ Suc j \<noteq> 0" by auto
  have "strip (m * 2 ^ Suc j) e = strip (m * 2 ^ j) (e + 1)"
    using nz by (subst strip.simps) simp
  also have "\<dots> = (m, e + 1 + int j)" using Suc.IH [OF Suc.prems] by simp
  finally show ?case by simp
qed

lemma strip_decompose:
  "(m::int) \<noteq> 0 \<Longrightarrow> \<exists>m' j. odd m' \<and> m = m' * 2 ^ j"
proof (induction "nat \<bar>m\<bar>" arbitrary: m rule: less_induct)
  case less
  show ?case
  proof (cases "even m")
    case False
    then have "odd m \<and> m = m * 2 ^ 0" by simp
    then show ?thesis by blast
  next
    case True
    then obtain h where h: "m = 2 * h" by (auto elim: evenE)
    with less.prems have "h \<noteq> 0" by auto
    moreover have "nat \<bar>h\<bar> < nat \<bar>m\<bar>" using h \<open>h \<noteq> 0\<close> by auto
    ultimately obtain m' j where "odd m'" "h = m' * 2 ^ j" using less.hyps by blast
    with h have "odd m' \<and> m = m' * 2 ^ Suc j" by simp
    then show ?thesis by blast
  qed
qed

lemma strip_result:
  assumes "m \<noteq> 0"
  shows "\<exists>m' j. strip m e = (m', e + int j) \<and> odd m' \<and> m = m' * 2 ^ j"
proof -
  from strip_decompose [OF assms] obtain m' j where "odd m'" "m = m' * 2 ^ j" by blast
  then show ?thesis using strip_pow2 [of m' j e] by blast
qed

lemma div_pow2_less:
  assumes "(a::int) < c * 2 ^ k"
  shows "a div 2 ^ k < c"
proof (rule ccontr)
  assume "\<not> a div 2 ^ k < c"
  then have "c \<le> a div 2 ^ k" by simp
  then have "c * 2 ^ k \<le> (a div 2 ^ k) * 2 ^ k" by (rule mult_right_mono) simp
  also have "\<dots> \<le> (a div 2 ^ k) * 2 ^ k + a mod 2 ^ k" by simp
  also have "\<dots> = a" by (rule div_mult_mod_eq)
  finally show False using assms by simp
qed

lemma round_half_even_le:
  assumes "0 \<le> a" and "a < 2 ^ (53 + k)"
  shows "round_half_even a k \<le> 2 ^ 53"
proof -
  from assms(2) have "a < 2 ^ 53 * 2 ^ k" by (simp only: power_add)
  then have "a div 2 ^ k < 2 ^ 53" by (rule div_pow2_less)
  then show ?thesis by (auto simp add: round_half_even_def Let_def)
qed

lemma round_half_even_nonneg: "0 \<le> a \<Longrightarrow> 0 \<le> round_half_even a k"
  by (auto simp add: round_half_even_def Let_def pos_imp_zdiv_nonneg_iff)

lemma odd_bitlen_53:
  assumes "odd m'" and "0 < m'" and "m' * 2 ^ j \<le> (2::int) ^ 53"
  shows "bitlen m' \<le> 53"
proof -
  have "m' \<le> m' * 2 ^ j" using assms(2) by simp
  with assms(3) have "m' \<le> 2 ^ 53" by linarith
  moreover from assms(1) have "m' \<noteq> 2 ^ 53" by auto
  ultimately have "m' < 2 ^ 53" by linarith
  then show ?thesis using bitlen_le_iff_power [of m' 53] by simp
qed

lemma is_double_round_double: "is_double (round_double p e)"
proof -
  define a where "a = \<bar>p\<bar>"
  define k where "k = max (bitlen a - 53) (- 1074 - e)"
  define m where "m = (if k \<le> 0 then a else round_half_even a (nat k))"
  define e' where "e' = (if k \<le> 0 then e else e + k)"
  define s where "s = (if p < 0 then - m else m)"
  have rd: "round_double p e =
      (if m = 0 then Finite 0 0
       else if 1024 < bitlen m + e' then (if p < 0 then NegInf else PosInf)
       else (case strip s e' of (m', e'') \<Rightarrow> Finite m' e''))"
    unfolding round_double_def Let_def a_def k_def m_def e'_def s_def by (rule refl)
  have a0: "0 \<le> a" by (simp add: a_def)
  have m0: "0 \<le> m" using a0 by (simp add: m_def round_half_even_nonneg)
  have e'lo: "- 1074 \<le> e'" by (auto simp add: e'_def k_def)
  have mle: "m \<le> 2 ^ 53"
  proof (cases "k \<le> 0")
    case True
    then have "bitlen a \<le> 53" by (simp add: k_def)
    then have "a < 2 ^ 53" using bitlen_le_iff_power [of a 53] by simp
    with True show ?thesis by (simp add: m_def)
  next
    case False
    then have kpos: "0 < k" by simp
    have "bitlen a \<le> 53 + k" by (simp add: k_def)
    then have "a < 2 ^ nat (53 + k)" using bitlen_le_iff_power [of a "53 + k"] by simp
    moreover have "nat (53 + k) = 53 + nat k" using kpos by simp
    ultimately have "a < 2 ^ (53 + nat k)" by simp
    from round_half_even_le [OF a0 this] False show ?thesis by (simp add: m_def)
  qed
  show ?thesis
  proof (cases "m = 0")
    case True
    then show ?thesis by (simp add: rd)
  next
    case mnz: False
    show ?thesis
    proof (cases "1024 < bitlen m + e'")
      case True
      with mnz show ?thesis by (simp add: rd)
    next
      case False
      from mnz have "s \<noteq> 0" by (simp add: s_def)
      from strip_result [OF this, of e'] obtain m' j where
        st: "strip s e' = (m', e' + int j)" and odd: "odd m'" and sm: "s = m' * 2 ^ j"
        by blast
      have abs_s: "\<bar>s\<bar> = m" using m0 by (simp add: s_def)
      have am: "m = \<bar>m'\<bar> * 2 ^ j" using sm abs_s by (simp add: abs_mult)
      from odd have m'pos: "0 < \<bar>m'\<bar>" by auto
      have bl: "bitlen m = bitlen \<bar>m'\<bar> + int j"
        unfolding am using m'pos by (rule bitlen_pow2)
      from odd have odd': "odd \<bar>m'\<bar>" by simp
      from mle am have "\<bar>m'\<bar> * 2 ^ j \<le> 2 ^ 53" by simp
      from odd_bitlen_53 [OF odd' m'pos this] have b53: "bitlen \<bar>m'\<bar> \<le> 53" .
      from False bl have hi: "bitlen \<bar>m'\<bar> + (e' + int j) \<le> 1024" by simp
      from e'lo have lo: "- 1074 \<le> e' + int j" by simp
      from mnz False st odd b53 hi lo show ?thesis by (simp add: rd)
    qed
  qed
qed

lemma round_half_even_exact:
  assumes "k \<le> j"
  shows "round_half_even (b * 2 ^ j) k = b * 2 ^ (j - k)"
proof -
  have split: "(2::int) ^ j = 2 ^ (j - k) * 2 ^ k"
    using assms by (simp flip: power_add)
  have d: "(b * 2 ^ j) div 2 ^ k = b * 2 ^ (j - k)"
    unfolding split by (simp flip: mult.assoc)
  have m: "(b * 2 ^ j) mod 2 ^ k = 0"
    unfolding split by (simp flip: mult.assoc)
  show ?thesis
    unfolding round_half_even_def Let_def d m by simp
qed

lemma round_double_unfold:
  "round_double p e =
     (if (if max (bitlen \<bar>p\<bar> - 53) (- 1074 - e) \<le> 0 then \<bar>p\<bar>
          else round_half_even \<bar>p\<bar> (nat (max (bitlen \<bar>p\<bar> - 53) (- 1074 - e)))) = 0
      then Finite 0 0
      else if 1024 < bitlen (if max (bitlen \<bar>p\<bar> - 53) (- 1074 - e) \<le> 0 then \<bar>p\<bar>
          else round_half_even \<bar>p\<bar> (nat (max (bitlen \<bar>p\<bar> - 53) (- 1074 - e))))
           + (if max (bitlen \<bar>p\<bar> - 53) (- 1074 - e) \<le> 0 then e
              else e + max (bitlen \<bar>p\<bar> - 53) (- 1074 - e))
      then (if p < 0 then NegInf else PosInf)
      else (case strip (if p < 0
                        then - (if max (bitlen \<bar>p\<bar> - 53) (- 1074 - e) \<le> 0 then \<bar>p\<bar>
                                else round_half_even \<bar>p\<bar>
                                       (nat (max (bitlen \<bar>p\<bar> - 53) (- 1074 - e))))
                        else (if max (bitlen \<bar>p\<bar> - 53) (- 1074 - e) \<le> 0 then \<bar>p\<bar>
                              else round_half_even \<bar>p\<bar>
                                     (nat (max (bitlen \<bar>p\<bar> - 53) (- 1074 - e)))))
                  (if max (bitlen \<bar>p\<bar> - 53) (- 1074 - e) \<le> 0 then e
                   else e + max (bitlen \<bar>p\<bar> - 53) (- 1074 - e)) of
              (m', e'') \<Rightarrow> Finite m' e''))"
  unfolding round_double_def Let_def by (rule refl)

lemma round_double_zero: "round_double 0 e = Finite 0 0"
  unfolding round_double_unfold by (simp add: round_half_even_def)

lemma round_double_pow2:
  assumes odd: "odd m" and b53: "bitlen \<bar>m\<bar> \<le> 53" and lo: "- 1074 \<le> E"
    and hi: "bitlen \<bar>m\<bar> + E + int j \<le> 1024"
  shows "round_double (m * 2 ^ j) E = Finite m (E + int j)"
proof -
  define p where "p = m * 2 ^ j"
  define a where "a = \<bar>p\<bar>"
  define k where "k = max (bitlen a - 53) (- 1074 - E)"
  define r where "r = (if k \<le> 0 then a else round_half_even a (nat k))"
  define e' where "e' = (if k \<le> 0 then E else E + k)"
  define s where "s = (if p < 0 then - r else r)"
  have rd: "round_double p E =
      (if r = 0 then Finite 0 0
       else if 1024 < bitlen r + e' then (if p < 0 then NegInf else PosInf)
       else (case strip s e' of (m', e'') \<Rightarrow> Finite m' e''))"
    unfolding round_double_def Let_def a_def k_def r_def e'_def s_def by (rule refl)
  from odd have mpos: "0 < \<bar>m\<bar>" by auto
  have a: "a = \<bar>m\<bar> * 2 ^ j" by (simp add: a_def p_def abs_mult)
  have bla: "bitlen a = bitlen \<bar>m\<bar> + int j" unfolding a using mpos by (rule bitlen_pow2)
  have sgn: "(p < 0) = (m < 0)" by (simp add: p_def mult_less_0_iff)
  have "\<exists>i. i \<le> j \<and> r = \<bar>m\<bar> * 2 ^ i \<and> e' = E + int (j - i)"
  proof (cases "k \<le> 0")
    case True
    then have "r = \<bar>m\<bar> * 2 ^ j \<and> e' = E + int (j - j)" by (simp add: r_def e'_def a)
    then show ?thesis by blast
  next
    case False
    then have kpos: "0 < k" by simp
    with lo have k: "k = bitlen \<bar>m\<bar> + int j - 53" by (simp add: k_def bla)
    with b53 have kj: "nat k \<le> j" by simp
    from round_half_even_exact [OF kj, of "\<bar>m\<bar>"] False
    have "r = \<bar>m\<bar> * 2 ^ (j - nat k)" by (simp add: r_def a)
    moreover have "e' = E + int (j - (j - nat k))" using False kj kpos by (simp add: e'_def)
    ultimately show ?thesis by (intro exI [of _ "j - nat k"]) simp
  qed
  then obtain i where i: "i \<le> j" "r = \<bar>m\<bar> * 2 ^ i" "e' = E + int (j - i)" by blast
  from i(2) mpos have rnz: "r \<noteq> 0" by simp
  have blr: "bitlen r = bitlen \<bar>m\<bar> + int i" unfolding i(2) using mpos by (rule bitlen_pow2)
  have noov: "\<not> 1024 < bitlen r + e'" using hi i(1) by (simp add: blr i(3))
  have s: "s = m * 2 ^ i" by (auto simp add: s_def sgn i(2))
  have "strip s e' = (m, e' + int i)" unfolding s using odd by (rule strip_pow2)
  then have "strip s e' = (m, E + int j)" using i(1) by (simp add: i(3))
  with rnz noov show ?thesis by (simp add: rd p_def [symmetric])
qed

lemma fadd_zero_left:
  assumes "is_double x"
  shows "fadd (Finite 0 0) x = x"
proof (cases x)
  case (Finite m e)
  show ?thesis
  proof (cases "m = 0")
    case True
    with assms Finite show ?thesis by (simp add: fadd.simps round_double_zero)
  next
    case False
    with assms Finite have d: "odd m" "bitlen \<bar>m\<bar> \<le> 53" "- 1074 \<le> e"
      "bitlen \<bar>m\<bar> + e \<le> 1024" by auto
    show ?thesis
    proof (cases "0 \<le> e")
      case True
      from d True have "round_double (m * 2 ^ nat e) 0 = Finite m (0 + int (nat e))"
        by (intro round_double_pow2) simp_all
      with True Finite show ?thesis by (simp add: fadd.simps min_def)
    next
      case False
      from d have "round_double (m * 2 ^ 0) e = Finite m (e + int 0)"
        by (intro round_double_pow2) simp_all
      with False Finite show ?thesis by (simp add: fadd.simps min_def)
    qed
  qed
qed (simp_all add: fadd.simps)

lemma is_double_fneg: "is_double x \<Longrightarrow> is_double (fneg x)"
  by (cases x) auto

lemma is_double_fadd: "is_double (fadd x y)"
  by (cases x; cases y) (simp_all add: fadd.simps is_double_round_double Let_def)

lemma is_double_fmul: "is_double (fmul x y)"
  by (cases x; cases y) (simp_all add: fmul.simps is_double_round_double)

lemma fsub_zero_left: "is_double x \<Longrightarrow> fsub (Finite 0 0) x = fneg x"
  unfolding fsub_def by (rule fadd_zero_left) (rule is_double_fneg)

lemma fsub_zero_fmul: "fsub (Finite 0 0) (fmul x y) = fneg (fmul x y)"
  by (rule fsub_zero_left) (rule is_double_fmul)


lemma round_half_even_ge: "a div 2 ^ k \<le> round_half_even a k"
  by (simp add: round_half_even_def Let_def)

lemma div_pow2_ge:
  assumes "c * 2 ^ k \<le> (a::int)"
  shows "c \<le> a div 2 ^ k"
proof -
  have "c = (c * 2 ^ k) div 2 ^ k" by simp
  also have "\<dots> \<le> a div 2 ^ k" using assms by (intro zdiv_mono1) simp_all
  finally show ?thesis .
qed

lemma round_double_overflow:
  assumes "2 ^ 1024 \<le> \<bar>p\<bar>"
  shows "round_double p 0 = (if p < 0 then NegInf else PosInf)"
proof -
  define a where "a = \<bar>p\<bar>"
  define k where "k = max (bitlen a - 53) (- 1074 - 0)"
  define r where "r = (if k \<le> 0 then a else round_half_even a (nat k))"
  define e' where "e' = (if k \<le> 0 then 0 else 0 + k)"
  define s where "s = (if p < 0 then - r else r)"
  have rd: "round_double p 0 =
      (if r = 0 then Finite 0 0
       else if 1024 < bitlen r + e' then (if p < 0 then NegInf else PosInf)
       else (case strip s e' of (m', e'') \<Rightarrow> Finite m' e''))"
    unfolding round_double_def Let_def a_def k_def r_def e'_def s_def by (rule refl)
  from assms have a: "2 ^ 1024 \<le> a" by (simp add: a_def)
  moreover have "(0::int) < 2 ^ 1024" by simp
  ultimately have apos: "0 < a" by linarith
  have "\<not> bitlen a \<le> 1024"
    using a bitlen_le_iff_power [of a 1024] by simp
  then have bl: "1025 \<le> bitlen a" by simp
  then have k: "k = bitlen a - 53" and kpos: "0 < k" by (simp_all add: k_def)
  from bitlen_bounds [OF apos] have lo: "2 ^ nat (bitlen a - 1) \<le> a" by simp
  have "nat (bitlen a - 1) = 52 + nat k" using bl by (simp add: k)
  with lo have "2 ^ 52 * 2 ^ nat k \<le> a" by (simp add: power_add)
  then have "2 ^ 52 \<le> a div 2 ^ nat k" by (rule div_pow2_ge)
  also have "\<dots> \<le> round_half_even a (nat k)" by (rule round_half_even_ge)
  finally have r: "2 ^ 52 \<le> r" using kpos by (simp add: r_def)
  moreover have "(0::int) < 2 ^ 52" by simp
  ultimately have rnz: "r \<noteq> 0" by linarith
  from r have "\<not> bitlen r \<le> 52" using bitlen_le_iff_power [of r 52] by simp
  then have "53 \<le> bitlen r" by simp
  with bl have "1024 < bitlen r + e'" using kpos by (simp add: e'_def k)
  with rnz show ?thesis by (simp add: rd)
qed

lemma py_float_overflow: "2 ^ 1024 \<le> \<bar>n\<bar> \<Longrightarrow> py_float float_of (JInt n) = None"
  by (simp add: py_float_def round_double_overflow)

lemma py_float_simps:
  "py_float float_of (JFloat x) = Some x"
  "py_float float_of (JBool b) = Some (if b then Finite 1 0 else Finite 0 0)"
  "py_float float_of (JString s) = float_of s"
  "py_float float_of JNull = None"
  "py_float float_of (JArray vs) = None"
  "py_float float_of (JObject items) = None"
  by (simp_all add: py_float_def)

lemma py_float_int:
  "py_float float_of (JInt n) = Some x \<Longrightarrow> x = round_double n 0"
  by (auto simp add: py_float_def split: pyfloat.splits)

lemma ten_309: "(2::int) ^ 1024 \<le> \<bar>10 ^ 309\<bar>"
  by simp

section \<open>Lookups, keys and balances\<close>

lemma fold_max_ge_init: "(a::nat) \<le> fold max xs a"
proof (induction xs arbitrary: a)
  case Nil
  show ?case by simp
next
  case (Cons x xs)
  have "a \<le> max x a" by simp
  also have "\<dots> \<le> fold max xs (max x a)" by (rule Cons.IH)
  finally show ?case by simp
qed

lemma fold_max_ge_member: "(x::nat) \<in> set xs \<Longrightarrow> x \<le> fold max xs a"
proof (induction xs arbitrary: a)
  case Nil
  then show ?case by simp
next
  case (Cons y ys)
  show ?case
  proof (cases "x = y")
    case True
    have "x \<le> max y a" using True by simp
    also have "\<dots> \<le> fold max ys (max y a)" by (rule fold_max_ge_init)
    finally show ?thesis by simp
  next
    case False
    with Cons.prems have "x \<in> set ys" by simp
    then show ?thesis using Cons.IH by simp
  qed
qed

lemma fresh_id_notin: "fresh_id ids \<notin> set ids"
proof
  assume "fresh_id ids \<in> set ids"
  then have "fresh_id ids \<le> fold max ids 0" by (rule fold_max_ge_member)
  then show False by (simp add: fresh_id_def)
qed

lemma first_index_None: "first_index P xs = None \<longleftrightarrow> (\<forall>x\<in>set xs. \<not> P x)"
  by (induction xs) auto

lemma first_index_Some: "first_index P xs = Some i \<Longrightarrow> i < length xs \<and> P (xs ! i)"
  by (induction xs arbitrary: i) (auto split: if_splits)

lemma first_index_least: "first_index P xs = Some i \<Longrightarrow> j < i \<Longrightarrow> \<not> P (xs ! j)"
proof (induction xs arbitrary: i j)
  case Nil
  then show ?case by simp
next
  case (Cons x xs)
  then show ?case by (cases j) (auto split: if_splits)
qed

lemma find_first_index:
  "find P xs = (case first_index P xs of None \<Rightarrow> None | Some i \<Rightarrow> Some (xs ! i))"
  by (induction xs) (auto split: option.splits)

lemma first_index_map_eq:
  "map g xs = map g ys \<Longrightarrow> first_index (\<lambda>x. Q (g x)) xs = first_index (\<lambda>x. Q (g x)) ys"
proof (induction xs arbitrary: ys)
  case Nil
  then show ?case by simp
next
  case (Cons x xs)
  then obtain y ys' where "ys = y # ys'" by (cases ys) auto
  with Cons show ?case by auto
qed

lemma find_portfolio_None:
  "find_portfolio uid a ps = None \<longleftrightarrow> (\<forall>p\<in>set ps. \<not> (p_user_id p = uid \<and> p_asset p = a))"
  by (simp add: find_portfolio_def first_index_None)

lemma find_portfolio_Some:
  "find_portfolio uid a ps = Some i \<Longrightarrow>
   i < length ps \<and> p_user_id (ps ! i) = uid \<and> p_asset (ps ! i) = a"
  using first_index_Some [of "\<lambda>p. p_user_id p = uid \<and> p_asset p = a" ps i]
  by (simp add: find_portfolio_def)

lemma find_portfolio_Nil: "find_portfolio uid a [] = None"
  by (simp add: find_portfolio_def)

lemma find_portfolio_Cons:
  "find_portfolio uid a (p # ps) =
     (if p_user_id p = uid \<and> p_asset p = a then Some 0
      else map_option Suc (find_portfolio uid a ps))"
  by (simp add: find_portfolio_def)

lemma set_balance_keys:
  "map (\<lambda>p. (p_user_id p, p_asset p)) (set_balance i f ps) =
   map (\<lambda>p. (p_user_id p, p_asset p)) ps"
proof (cases "i < length ps")
  case True
  then show ?thesis by (simp add: set_balance_def map_update list_update_same_conv)
next
  case False
  then show ?thesis by (simp add: set_balance_def list_update_beyond)
qed

lemma find_portfolio_set_balance:
  "find_portfolio uid a (set_balance i f ps) = find_portfolio uid a ps"
  using first_index_map_eq [OF set_balance_keys, of "\<lambda>k. fst k = uid \<and> snd k = a" i f ps]
  by (simp add: find_portfolio_def)

lemma length_set_balance: "length (set_balance i f ps) = length ps"
  by (simp add: set_balance_def)

lemma balance_set_balance:
  "i < length ps \<Longrightarrow>
   p_balance (set_balance i f ps ! j) =
     (if j = i then f (p_balance (ps ! i)) else p_balance (ps ! j))"
  by (simp add: set_balance_def)

lemma key_set_balance:
  "j < length ps \<Longrightarrow>
   p_user_id (set_balance i f ps ! j) = p_user_id (ps ! j) \<and>
   p_asset (set_balance i f ps ! j) = p_asset (ps ! j)"
  by (cases "i < length ps") (auto simp add: set_balance_def nth_list_update)

lemma set_balance_append_left:
  "i < length xs \<Longrightarrow> set_balance i f (xs @ ys) = set_balance i f xs @ ys"
  by (simp add: set_balance_def list_update_append nth_append)

lemma set_balance_append_right:
  "set_balance (length xs + k) f (xs @ ys) = xs @ set_balance k f ys"
  by (simp add: set_balance_def list_update_append nth_append)

lemma set_balance_Cons_0:
  "set_balance 0 f (p # ps) = p\<lparr>p_balance := f (p_balance p)\<rparr> # ps"
  by (simp add: set_balance_def)

lemma set_balance_Cons_Suc:
  "set_balance (Suc k) f (p # ps) = p # set_balance k f ps"
  by (simp add: set_balance_def)

lemma entry_balance_first:
  "entry_balance uid a ps =
     (case find_portfolio uid a ps of None \<Rightarrow> Finite 0 0 | Some i \<Rightarrow> p_balance (ps ! i))"
  by (simp add: entry_balance_def find_portfolio_def find_first_index split: option.splits)

lemma has_entry_find: "has_entry uid a ps \<longleftrightarrow> find_portfolio uid a ps \<noteq> None"
  by (auto simp add: has_entry_def find_portfolio_None)

lemma entry_balance_set_balance:
  "entry_balance uid a (set_balance i f ps) =
     (if find_portfolio uid a ps = Some i
      then f (entry_balance uid a ps) else entry_balance uid a ps)"
proof (cases "i < length ps")
  case True
  then show ?thesis
    by (auto simp add: entry_balance_first find_portfolio_set_balance balance_set_balance
        split: option.splits)
next
  case False
  then have "set_balance i f ps = ps" by (simp add: set_balance_def list_update_beyond)
  moreover have "find_portfolio uid a ps \<noteq> Some i"
    using False find_portfolio_Some by fastforce
  ultimately show ?thesis by simp
qed

lemma find_portfolio_append:
  "find_portfolio uid a (xs @ ys) =
     (case find_portfolio uid a xs of
        Some i \<Rightarrow> Some i
      | None \<Rightarrow> map_option (\<lambda>j. length xs + j) (find_portfolio uid a ys))"
proof (induction xs)
  case Nil
  show ?case by (cases "find_portfolio uid a ys") (simp_all add: find_portfolio_Nil)
next
  case (Cons x xs)
  show ?case
  proof (cases "p_user_id x = uid \<and> p_asset x = a")
    case True
    then show ?thesis by (simp add: find_portfolio_Cons)
  next
    case False
    then show ?thesis
      by (cases "find_portfolio uid a xs"; cases "find_portfolio uid a ys")
         (simp_all add: find_portfolio_Cons Cons.IH)
  qed
qed

lemma entry_balance_append:
  "entry_balance uid a (xs @ ys) =
     (if find_portfolio uid a xs = None
      then entry_balance uid a ys else entry_balance uid a xs)"
  by (auto simp add: entry_balance_first find_portfolio_append nth_append
      dest: find_portfolio_Some split: option.splits)

lemma entry_balance_Nil: "entry_balance uid a [] = Finite 0 0"
  by (simp add: entry_balance_def)

lemma entry_balance_Cons:
  "entry_balance uid a (p # ps) =
     (if p_user_id p = uid \<and> p_asset p = a then p_balance p else entry_balance uid a ps)"
  by (simp add: entry_balance_def)

lemma entry_balance_None:
  "find_portfolio uid a ps = None \<Longrightarrow> entry_balance uid a ps = Finite 0 0"
  by (simp add: entry_balance_first)

text \<open>The two balance updates of a settlement, as functions of the balance.\<close>

lemma update_portfolio_cases:
  "update_portfolio uid base quote sd amt prc ps =
     (let fb = (if sd = ''buy'' then (\<lambda>b. fadd b amt) else (\<lambda>b. fsub b amt));
          fq = (if sd = ''buy'' then (\<lambda>b. fsub b (fmul amt prc))
                else (\<lambda>b. fadd b (fmul amt prc)))
      in case find_portfolio uid base ps of
           None \<Rightarrow>
             (case find_portfolio uid quote ps of
                None \<Rightarrow>
                  ps @ [new_row (fresh_id (map p_id ps)) base (fb (Finite 0 0)) uid,
                        new_row (fresh_id (map p_id ps @ [fresh_id (map p_id ps)])) quote
                          (fq (Finite 0 0)) uid]
              | Some j \<Rightarrow>
                  set_balance j fq ps
                    @ [new_row (fresh_id (map p_id ps)) base (fb (Finite 0 0)) uid])
         | Some i \<Rightarrow>
             (case find_portfolio uid quote ps of
                None \<Rightarrow>
                  set_balance i fb ps
                    @ [new_row (fresh_id (map p_id ps)) quote (fq (Finite 0 0)) uid]
              | Some j \<Rightarrow> set_balance j fq (set_balance i fb ps)))"
proof -
  have A: "set_balance (length ps) f (ps @ ys) = ps @ set_balance 0 f ys" for f ys
    using set_balance_append_right [of ps 0 f ys] by simp
  have B: "set_balance (Suc (length ps)) f (ps @ ys) = ps @ set_balance (Suc 0) f ys" for f ys
    using set_balance_append_right [of ps "Suc 0" f ys] by simp
  have C: "set_balance (length ps) g (set_balance i f ps @ ys) =
      set_balance i f ps @ set_balance 0 g ys" for f g i ys
    using set_balance_append_right [of "set_balance i f ps" 0 g ys]
    by (simp add: length_set_balance)
  show ?thesis
    by (auto simp add: update_portfolio_def Let_def new_row_def A B C set_balance_Cons_0
        set_balance_Cons_Suc set_balance_append_left length_set_balance
        dest: find_portfolio_Some split: option.splits)
qed

lemma update_portfolio_entry_buy:
  assumes "base \<noteq> quote"
  shows "entry_balance uid base (update_portfolio uid base quote ''buy'' amt prc ps) =
           fadd (entry_balance uid base ps) amt \<and>
         entry_balance uid quote (update_portfolio uid base quote ''buy'' amt prc ps) =
           fsub (entry_balance uid quote ps) (fmul amt prc)"
  using assms
  by (auto simp add: update_portfolio_cases Let_def new_row_def entry_balance_set_balance
      find_portfolio_set_balance entry_balance_append entry_balance_Cons entry_balance_Nil
      entry_balance_None dest: find_portfolio_Some split: option.splits)

lemma update_portfolio_entry_sell:
  assumes "base \<noteq> quote" "sd \<noteq> ''buy''"
  shows "entry_balance uid base (update_portfolio uid base quote sd amt prc ps) =
           fsub (entry_balance uid base ps) amt \<and>
         entry_balance uid quote (update_portfolio uid base quote sd amt prc ps) =
           fadd (entry_balance uid quote ps) (fmul amt prc)"
  using assms
  by (auto simp add: update_portfolio_cases Let_def new_row_def entry_balance_set_balance
      find_portfolio_set_balance entry_balance_append entry_balance_Cons entry_balance_Nil
      entry_balance_None dest: find_portfolio_Some split: option.splits)

text \<open>
  When base and quote are the same asset, both lookups return the same row, which is
  updated twice; when there is no such row, two rows are created and the first one, which a
  later lookup returns, gets the base update.
\<close>

lemma update_portfolio_entry_same:
  "entry_balance uid a (update_portfolio uid a a sd amt prc ps) =
     (if has_entry uid a ps
      then (if sd = ''buy''
            then fsub (fadd (entry_balance uid a ps) amt) (fmul amt prc)
            else fadd (fsub (entry_balance uid a ps) amt) (fmul amt prc))
      else (if sd = ''buy'' then fadd (Finite 0 0) amt else fsub (Finite 0 0) amt))"
  by (auto simp add: update_portfolio_cases Let_def new_row_def entry_balance_set_balance
      find_portfolio_set_balance entry_balance_append entry_balance_Cons entry_balance_Nil
      entry_balance_None has_entry_find dest: find_portfolio_Some split: option.splits)

lemma update_portfolio_none:
  assumes "\<not> has_entry uid base ps" and "\<not> has_entry uid quote ps"
  shows "update_portfolio uid base quote sd amt prc ps =
     ps @ [new_row (fresh_id (map p_id ps)) base
             (if sd = ''buy'' then fadd (Finite 0 0) amt else fsub (Finite 0 0) amt) uid,
           new_row (fresh_id (map p_id ps @ [fresh_id (map p_id ps)])) quote
             (if sd = ''buy'' then fsub (Finite 0 0) (fmul amt prc)
              else fadd (Finite 0 0) (fmul amt prc)) uid]"
  using assms by (simp add: update_portfolio_cases Let_def has_entry_find)

lemma update_portfolio_has_entry:
  "has_entry uid base (update_portfolio uid base quote sd amt prc ps) \<and>
   has_entry uid quote (update_portfolio uid base quote sd amt prc ps)"
  unfolding has_entry_find
  by (auto simp add: update_portfolio_cases Let_def new_row_def find_portfolio_append
      find_portfolio_set_balance find_portfolio_Cons split: option.splits)

lemma update_portfolio_length:
  "length (update_portfolio uid base quote sd amt prc ps) =
     length ps + (if has_entry uid base ps then 0 else 1)
               + (if has_entry uid quote ps then 0 else 1)"
  unfolding has_entry_find
  by (auto simp add: update_portfolio_cases Let_def length_set_balance split: option.splits)

text \<open>What a settlement leaves alone: the rows of other users and of other assets.\<close>

lemma update_portfolio_entry_other:
  assumes "u \<noteq> uid \<or> a \<noteq> base \<and> a \<noteq> quote"
  shows "entry_balance u a (update_portfolio uid base quote sd amt prc ps) =
     entry_balance u a ps"
  using assms
  by (auto simp add: update_portfolio_cases Let_def new_row_def entry_balance_set_balance
      find_portfolio_set_balance entry_balance_append entry_balance_Cons entry_balance_Nil
      entry_balance_None dest: find_portfolio_Some split: option.splits)

lemma holdings_Nil_iff: "holdings uid ps = [] \<longleftrightarrow> (\<forall>p\<in>set ps. p_user_id p \<noteq> uid)"
  by (simp add: holdings_def filter_empty_conv)

lemma holdings_append: "holdings uid (xs @ ys) = holdings uid xs @ holdings uid ys"
  by (simp add: holdings_def)

lemma holdings_set_balance:
  "i < length ps \<Longrightarrow> p_user_id (ps ! i) \<noteq> u \<Longrightarrow>
   holdings u (set_balance i f ps) = holdings u ps"
proof (induction ps arbitrary: i)
  case Nil
  then show ?case by simp
next
  case (Cons p ps)
  show ?case
  proof (cases i)
    case 0
    with Cons.prems show ?thesis by (simp add: set_balance_Cons_0 holdings_def)
  next
    case (Suc k)
    with Cons.prems have "holdings u (set_balance k f ps) = holdings u ps"
      by (intro Cons.IH) simp_all
    with Suc show ?thesis by (simp add: set_balance_Cons_Suc holdings_def)
  qed
qed

lemma update_portfolio_holdings_other:
  assumes "u \<noteq> uid"
  shows "holdings u (update_portfolio uid base quote sd amt prc ps) = holdings u ps"
proof -
  have own: "holdings u [new_row k a b uid] = []" for k a b
    using assms by (simp add: holdings_def new_row_def)
  have own2: "holdings u [new_row k a b uid, new_row k' a' b' uid] = []" for k a b k' a' b'
    using assms by (simp add: holdings_def new_row_def)
  have sb: "holdings u (set_balance i f qs) = holdings u qs"
    if "find_portfolio uid a qs = Some i" for i f a qs
    using find_portfolio_Some [OF that] assms by (intro holdings_set_balance) simp_all
  show ?thesis
  proof (cases "find_portfolio uid base ps")
    case bN: None
    show ?thesis
    proof (cases "find_portfolio uid quote ps")
      case None
      with bN show ?thesis
        by (simp add: update_portfolio_cases Let_def holdings_append own2)
    next
      case (Some j)
      with bN show ?thesis
        by (simp add: update_portfolio_cases Let_def holdings_append own sb [OF Some])
    qed
  next
    case bS: (Some i)
    show ?thesis
    proof (cases "find_portfolio uid quote ps")
      case None
      with bS show ?thesis
        by (simp add: update_portfolio_cases Let_def holdings_append own sb [OF bS])
    next
      case (Some j)
      have "find_portfolio uid quote (set_balance i g ps) = Some j" for g
        using Some by (simp add: find_portfolio_set_balance)
      from sb [OF this] bS Some show ?thesis
        by (simp add: update_portfolio_cases Let_def sb [OF bS])
    qed
  qed
qed

lemma update_portfolio_fresh_user:
  assumes "holdings uid ps = []"
  shows "holdings uid (update_portfolio uid base quote sd amt prc ps) =
     [(base, if sd = ''buy'' then fadd (Finite 0 0) amt else fsub (Finite 0 0) amt),
      (quote, if sd = ''buy'' then fsub (Finite 0 0) (fmul amt prc)
              else fadd (Finite 0 0) (fmul amt prc))]"
proof -
  from assms have none: "\<forall>p\<in>set ps. p_user_id p \<noteq> uid" by (simp add: holdings_Nil_iff)
  then have "\<not> has_entry uid base ps" "\<not> has_entry uid quote ps"
    by (auto simp add: has_entry_def)
  from update_portfolio_none [OF this] assms show ?thesis
    by (simp add: holdings_append) (simp add: holdings_def new_row_def)
qed

text \<open>A symbol resolves to the row that the market query returns.\<close>

lemma find_market_None: "find_market s ms = None \<longleftrightarrow> (\<forall>m\<in>set ms. m_symbol m \<noteq> s)"
  by (auto simp add: find_market_def find_None_iff)

lemma find_market_resolves:
  "find_market s ms = Some m \<longleftrightarrow> (\<exists>i. resolves_at s ms i \<and> ms ! i = m)"
  by (auto simp add: find_market_def find_Some_iff resolves_at_def)

lemma resolves_at_find: "resolves_at s ms i \<Longrightarrow> find_market s ms = Some (ms ! i)"
  by (auto simp add: find_market_resolves)

lemma resolves_at_unique: "resolves_at s ms i \<Longrightarrow> resolves_at s ms j \<Longrightarrow> i = j"
  unfolding resolves_at_def by (metis nat_neq_iff)

lemma resolves_at_member: "resolves_at s ms i \<Longrightarrow> \<exists>m\<in>set ms. m_symbol m = s"
  unfolding resolves_at_def by (metis nth_mem)


section \<open>The outcomes of an order submission\<close>

lemma create_order_bad_side:
  "side tr \<noteq> ''buy'' \<Longrightarrow> side tr \<noteq> ''sell'' \<Longrightarrow>
   create_order now_db now uid tr d = (Inl (HTTPException 400 side_detail), d)"
  by (simp add: create_order_def)

lemma create_order_bad_type:
  "side tr = ''buy'' \<or> side tr = ''sell'' \<Longrightarrow>
   order_type tr \<noteq> ''market'' \<Longrightarrow> order_type tr \<noteq> ''limit'' \<Longrightarrow>
   create_order now_db now uid tr d = (Inl (HTTPException 400 order_type_detail), d)"
  by (auto simp add: create_order_def)

lemma create_order_no_price:
  assumes "side tr = ''buy'' \<or> side tr = ''sell''" "order_type tr = ''limit''"
    "price_missing (price tr)"
  shows "create_order now_db now uid tr d =
    (Inl (HTTPException 400 ''Price is required for limit orders''), d)"
  using assms by (auto simp add: create_order_def)

lemma create_order_no_market:
  assumes "side tr = ''buy'' \<or> side tr = ''sell''"
    "order_type tr = ''market'' \<or> order_type tr = ''limit''"
    "order_type tr = ''limit'' \<longrightarrow> \<not> price_missing (price tr)"
    "find_market (symbol tr) (markets d) = None"
  shows "create_order now_db now uid tr d =
    (Inl (HTTPException 400 (''Market '' @ symbol tr @ '' not found'')), d)"
  using assms by (auto simp add: create_order_def)

lemma create_order_limit:
  assumes "side tr = ''buy'' \<or> side tr = ''sell''" "order_type tr = ''limit''"
    "\<not> price_missing (price tr)"
    "find_market (symbol tr) (markets d) = Some mkt"
  shows "create_order now_db now uid tr d =
    (Inr (placed_row now_db uid tr mkt d),
     d\<lparr>trades := trades d @ [placed_row now_db uid tr mkt d]\<rparr>)"
  using assms by (auto simp add: create_order_def placed_row_def Let_def)

lemma create_order_market:
  assumes "side tr = ''buy'' \<or> side tr = ''sell''" "order_type tr = ''market''"
    "find_market (symbol tr) (markets d) = Some mkt"
    "split_sep CHR ''/'' (symbol tr) = [b, q]"
  shows "create_order now_db now uid tr d =
    (Inr ((placed_row now_db uid tr mkt d)\<lparr>t_status := ''filled'', t_executed_at := Some now\<rparr>),
     d\<lparr>trades := trades d @
          [(placed_row now_db uid tr mkt d)\<lparr>t_status := ''filled'', t_executed_at := Some now\<rparr>],
       portfolios :=
         update_portfolio uid b q (side tr) (amount tr) (m_price mkt) (portfolios d)\<rparr>)"
  using assms by (auto simp add: create_order_def placed_row_def Let_def)

lemma create_order_market_unsplit:
  assumes "side tr = ''buy'' \<or> side tr = ''sell''" "order_type tr = ''market''"
    "find_market (symbol tr) (markets d) = Some mkt"
    "length (split_sep CHR ''/'' (symbol tr)) \<noteq> 2"
  shows "create_order now_db now uid tr d =
    (Inl ValueError, d\<lparr>trades := trades d @ [placed_row now_db uid tr mkt d]\<rparr>)"
  using assms
  by (auto simp add: create_order_def placed_row_def Let_def split: list.splits)

lemma length_2_iff: "length xs = 2 \<longleftrightarrow> (\<exists>a b. xs = [a, b])"
  by (cases xs; cases "tl xs") auto

lemma fresh_id_notin_image: "fresh_id (map f xs) \<notin> f ` set xs"
  using fresh_id_notin [of "map f xs"] by simp

lemma placed_row_id_fresh: "t_id (placed_row c uid tr mkt d) \<notin> set (map t_id (trades d))"
  by (simp add: placed_row_def fresh_id_notin_image)

subsection \<open>Facts about the small database\<close>

lemma demo_markets: "markets demo_db = [eth_btc, btc_usd, btcusd]"
  by (simp add: demo_db_def)

lemma demo_find_btc_usd: "find_market ''BTC/USD'' (markets demo_db) = Some btc_usd"
  by (simp add: find_market_def demo_db_def eth_btc_def btc_usd_def btcusd_def)

lemma demo_find_btcusd: "find_market ''BTCUSD'' (markets demo_db) = Some btcusd"
  by (simp add: find_market_def demo_db_def eth_btc_def btc_usd_def btcusd_def)

lemma demo_find_xyz: "find_market ''XYZ'' (markets demo_db) = None"
  by (simp add: find_market_def demo_db_def eth_btc_def btc_usd_def btcusd_def)

lemma demo_resolves_btc_usd: "resolves_at ''BTC/USD'' (markets demo_db) 1"
  by (simp add: resolves_at_def demo_db_def eth_btc_def btc_usd_def)

lemma demo_resolves_btcusd: "resolves_at ''BTCUSD'' (markets demo_db) 2"
  by (simp add: resolves_at_def demo_db_def eth_btc_def btc_usd_def btcusd_def
      less_Suc_eq numeral_2_eq_2)

lemma demo_market_1: "markets demo_db ! 1 = btc_usd"
  by (simp add: demo_db_def)

lemma demo_market_2: "markets demo_db ! 2 = btcusd"
  by (simp add: demo_db_def)

lemma split_btc_usd: "split_sep CHR ''/'' ''BTC/USD'' = [''BTC'', ''USD'']"
  by simp

lemma split_btcusd: "split_sep CHR ''/'' ''BTCUSD'' = [''BTCUSD'']"
  by simp

text \<open>Products and sums of the floats used in the concrete instances.\<close>

lemma two_times_hundred: "fmul (Finite 1 1) (Finite 25 2) = Finite 25 3"
  by code_simp

lemma one_times_hundred: "fmul (Finite 1 0) (Finite 25 2) = Finite 25 2"
  by code_simp

lemma hundredth_times_hundred:
  "fmul (Finite 5764607523034235 (- 59)) (Finite 25 2) = Finite 1 0"
  by code_simp

lemma tenth_times_hundred: "fmul (Finite 3602879701896397 (- 55)) (Finite 25 2) = Finite 5 1"
  by code_simp

lemma tenth_plus_tenth:
  "fadd (Finite 3602879701896397 (- 55)) (Finite 3602879701896397 (- 55)) =
     Finite 3602879701896397 (- 54)"
  by code_simp

lemma fifth_plus_tenth:
  "fadd (Finite 3602879701896397 (- 54)) (Finite 3602879701896397 (- 55)) =
     Finite 1351079888211149 (- 52)"
  by code_simp

lemma zero_minus_ten: "fsub (Finite 0 0) (Finite 5 1) = Finite (- 5) 1"
  by code_simp

lemma minus_ten_minus_ten: "fsub (Finite (- 5) 1) (Finite 5 1) = Finite (- 5) 2"
  by code_simp

lemma two_plus_two: "fadd (Finite 1 1) (Finite 1 1) = Finite 1 2"
  by code_simp

lemma minus_200_minus_200: "fsub (Finite (- 25) 3) (Finite 25 3) = Finite (- 25) 4"
  by code_simp

lemma is_double_two: "is_double (Finite 1 1)"
  by code_simp

lemma is_double_hundredth: "is_double (Finite 5764607523034235 (- 59))"
  by code_simp

lemma is_double_tenth: "is_double (Finite 3602879701896397 (- 55))"
  by code_simp

section \<open>Rejected submissions\<close>

text \<open>
  Claim C4. An order submission with order type limit and no price is rejected with the
  client error 400, and the database is left as it was: no trade row is created. This holds
  for every side, since a side that is neither buy nor sell is rejected with 400 as well.
\<close>

theorem limit_order_without_price_rejected:
  assumes "order_type tr = ''limit''" and "price tr = None"
  shows "\<exists>msg. create_order now_db now uid tr d = (Inl (HTTPException 400 msg), d)"
proof (cases "side tr = ''buy'' \<or> side tr = ''sell''")
  case True
  with assms show ?thesis
    by (simp add: create_order_no_price price_missing_def)
next
  case False
  then show ?thesis by (simp add: create_order_bad_side)
qed

text \<open>Claim C4, at a limit buy of 2 \<^verbatim>\<open>BTC/USD\<close> without a price on the small database.\<close>

theorem limit_order_without_price_rejected_witness:
  "order_type (submission ''BTC/USD'' ''buy'' ''limit'' (Finite 1 1) None) = ''limit'' \<and>
   price (submission ''BTC/USD'' ''buy'' ''limit'' (Finite 1 1) None) = None \<and>
   create_order 5 6 7 (submission ''BTC/USD'' ''buy'' ''limit'' (Finite 1 1) None) demo_db =
     (Inl (HTTPException 400 ''Price is required for limit orders''), demo_db)"
proof -
  let ?tr = "submission ''BTC/USD'' ''buy'' ''limit'' (Finite 1 1) None"
  have h1: "order_type ?tr = ''limit''" by (simp add: submission_def)
  have h2: "price ?tr = None" by (simp add: submission_def)
  from limit_order_without_price_rejected [OF h1 h2, of 5 6 7 demo_db]
  obtain msg where
    "create_order 5 6 7 ?tr demo_db = (Inl (HTTPException 400 msg), demo_db)" by blast
  moreover have "fst (create_order 5 6 7 ?tr demo_db)
     = Inl (HTTPException 400 ''Price is required for limit orders'')"
    by (simp add: create_order_def submission_def price_missing_def)
  ultimately show ?thesis using h1 h2 by simp
qed

subsection \<open>Unknown symbol\<close>

text \<open>
  Claim C5, as stated, at a concrete submission: the symbol \<^verbatim>\<open>XYZ\<close> resolves to no market
  row, yet the side \<^verbatim>\<open>hold\<close> is rejected first, and the message of that rejection does not
  contain the symbol.
\<close>

theorem unknown_symbol_message_counterexample:
  "find_market ''XYZ'' (markets demo_db) = None \<and>
   create_order 5 6 7 (submission ''XYZ'' ''hold'' ''market'' (Finite 1 0) None) demo_db =
     (Inl (HTTPException 400 side_detail), demo_db) \<and>
   \<not> sublist ''XYZ'' side_detail"
proof -
  have "\<not> sublist ''XYZ'' side_detail" by code_simp
  then show ?thesis
    by (simp add: demo_find_xyz create_order_bad_side submission_def)
qed

text \<open>
  Claim C5, amended. A submission whose symbol resolves to no market row is rejected with
  the client error 400 and the database is left as it was. When the submission passes the
  earlier checks (side buy or sell, order type market or limit, a limit order with a price
  that is present and not 0), the message is \<^verbatim>\<open>Market <symbol> not found\<close>, which contains
  the symbol.
\<close>

theorem unknown_symbol_rejected:
  assumes "find_market (symbol tr) (markets d) = None"
  shows "(\<exists>msg. create_order now_db now uid tr d = (Inl (HTTPException 400 msg), d)) \<and>
    ((side tr = ''buy'' \<or> side tr = ''sell'') \<and>
     (order_type tr = ''market'' \<or> order_type tr = ''limit'' \<and> \<not> price_missing (price tr))
     \<longrightarrow> create_order now_db now uid tr d =
            (Inl (HTTPException 400 (''Market '' @ symbol tr @ '' not found'')), d) \<and>
          sublist (symbol tr) (''Market '' @ symbol tr @ '' not found''))"
proof -
  have "\<exists>msg. create_order now_db now uid tr d = (Inl (HTTPException 400 msg), d)"
    using assms by (auto simp add: create_order_def)
  moreover have "sublist (symbol tr) (''Market '' @ symbol tr @ '' not found'')"
    by (rule sublist_appendI)
  moreover have "create_order now_db now uid tr d =
      (Inl (HTTPException 400 (''Market '' @ symbol tr @ '' not found'')), d)"
    if "side tr = ''buy'' \<or> side tr = ''sell''"
      and "order_type tr = ''market'' \<or> order_type tr = ''limit'' \<and> \<not> price_missing (price tr)"
    using that assms by (intro create_order_no_market) auto
  ultimately show ?thesis by blast
qed

text \<open>Claim C5, amended, at a market buy of the unknown symbol \<^verbatim>\<open>XYZ\<close>.\<close>

theorem unknown_symbol_rejected_witness:
  "find_market (symbol (submission ''XYZ'' ''buy'' ''market'' (Finite 1 0) None))
     (markets demo_db) = None \<and>
   create_order 5 6 7 (submission ''XYZ'' ''buy'' ''market'' (Finite 1 0) None) demo_db =
     (Inl (HTTPException 400 ''Market XYZ not found''), demo_db) \<and>
   sublist ''XYZ'' ''Market XYZ not found''"
proof -
  have h: "find_market (symbol (submission ''XYZ'' ''buy'' ''market'' (Finite 1 0) None))
      (markets demo_db) = None"
    by (simp add: submission_def demo_find_xyz)
  from unknown_symbol_rejected [OF h, of 5 6 7] h show ?thesis
    by (simp add: submission_def)
qed

subsection \<open>Limit order with price 0\<close>

text \<open>
  Claim C9, as stated, at a concrete submission: a limit order with price 0 and the side
  \<^verbatim>\<open>hold\<close> is rejected by the side check, with another message than the one about the
  price.
\<close>

theorem zero_price_message_counterexample:
  "order_type (submission ''BTC/USD'' ''hold'' ''limit'' (Finite 1 0) (Some (Finite 0 0)))
     = ''limit'' \<and>
   price (submission ''BTC/USD'' ''hold'' ''limit'' (Finite 1 0) (Some (Finite 0 0)))
     = Some (Finite 0 0) \<and>
   create_order 5 6 7
       (submission ''BTC/USD'' ''hold'' ''limit'' (Finite 1 0) (Some (Finite 0 0))) demo_db =
     (Inl (HTTPException 400 side_detail), demo_db) \<and>
   side_detail \<noteq> ''Price is required for limit orders''"
  by (simp add: create_order_bad_side submission_def side_detail_def)

text \<open>
  Claim C9, amended. A limit order with the supplied price 0 is rejected with the client
  error 400 and no trade row is created; when its side is buy or sell the message is
  \<^verbatim>\<open>Price is required for limit orders\<close>, the one an absent price gets. The float 0 is
  \<open>Finite 0 e\<close>, whatever the exponent.
\<close>

theorem zero_price_limit_order_rejected:
  assumes "order_type tr = ''limit''" and "price tr = Some (Finite 0 e)"
  shows "(\<exists>msg. create_order now_db now uid tr d = (Inl (HTTPException 400 msg), d)) \<and>
    (side tr = ''buy'' \<or> side tr = ''sell'' \<longrightarrow>
       create_order now_db now uid tr d =
         (Inl (HTTPException 400 ''Price is required for limit orders''), d))"
proof (cases "side tr = ''buy'' \<or> side tr = ''sell''")
  case True
  with assms show ?thesis
    by (simp add: create_order_no_price price_missing_def fis_zero_def)
next
  case False
  then show ?thesis by (simp add: create_order_bad_side)
qed

text \<open>Claim C9, amended, at a limit sell with price 0.\<close>

theorem zero_price_limit_order_rejected_witness:
  "order_type (submission ''BTC/USD'' ''sell'' ''limit'' (Finite 1 0) (Some (Finite 0 0)))
     = ''limit'' \<and>
   price (submission ''BTC/USD'' ''sell'' ''limit'' (Finite 1 0) (Some (Finite 0 0)))
     = Some (Finite 0 0) \<and>
   create_order 5 6 7
       (submission ''BTC/USD'' ''sell'' ''limit'' (Finite 1 0) (Some (Finite 0 0))) demo_db =
     (Inl (HTTPException 400 ''Price is required for limit orders''), demo_db)"
proof -
  let ?tr = "submission ''BTC/USD'' ''sell'' ''limit'' (Finite 1 0) (Some (Finite 0 0))"
  have h1: "order_type ?tr = ''limit''" by (simp add: submission_def)
  have h2: "price ?tr = Some (Finite 0 0)" by (simp add: submission_def)
  from zero_price_limit_order_rejected [OF h1 h2, of 5 6 7 demo_db] h1 h2 show ?thesis
    by (simp add: submission_def)
qed

subsection \<open>A market order whose symbol is no pair\<close>

text \<open>
  Claim C10, as stated, at a concrete submission: the symbol \<^verbatim>\<open>BTCUSD\<close> resolves to a market
  row and has one part only, the order type is market, but the side \<^verbatim>\<open>hold\<close> is rejected
  before any row is written: the trade table stays empty.
\<close>

theorem unsplit_symbol_counterexample:
  "order_type (submission ''BTCUSD'' ''hold'' ''market'' (Finite 1 0) None) = ''market'' \<and>
   find_market (symbol (submission ''BTCUSD'' ''hold'' ''market'' (Finite 1 0) None))
     (markets demo_db) = Some btcusd \<and>
   length (split_sep CHR ''/''
     (symbol (submission ''BTCUSD'' ''hold'' ''market'' (Finite 1 0) None))) = 1 \<and>
   create_order 5 6 7 (submission ''BTCUSD'' ''hold'' ''market'' (Finite 1 0) None) demo_db =
     (Inl (HTTPException 400 side_detail), demo_db) \<and>
   trades demo_db = []"
  by (simp add: create_order_bad_side submission_def demo_find_btcusd)
     (simp add: demo_db_def)

text \<open>
  Claim C10, amended. A market order with side buy or sell whose symbol resolves to a market
  row but does not split at \<^verbatim>\<open>/\<close> into exactly two parts fails with the unhandled
  \<^verbatim>\<open>ValueError\<close> after its trade row has been committed: the database then holds the new
  row with status open and no execution time, and the portfolio table is as before.
\<close>

theorem unsplit_symbol_leaves_open_row:
  assumes "side tr = ''buy'' \<or> side tr = ''sell''"
    and "order_type tr = ''market''"
    and "find_market (symbol tr) (markets d) = Some mkt"
    and "length (split_sep CHR ''/'' (symbol tr)) \<noteq> 2"
  shows "\<exists>t. create_order now_db now uid tr d = (Inl ValueError, d\<lparr>trades := trades d @ [t]\<rparr>) \<and>
    t_status t = ''open'' \<and> t_executed_at t = None \<and> t_symbol t = symbol tr \<and>
    t_side t = Some (side tr) \<and> t_order_type t = ''market'' \<and> t_amount t = amount tr \<and>
    t_price t = Some (m_price mkt) \<and> t_user_id t = uid \<and> t_id t \<notin> set (map t_id (trades d)) \<and>
    portfolios (snd (create_order now_db now uid tr d)) = portfolios d"
proof -
  let ?t = "placed_row now_db uid tr mkt d"
  have "create_order now_db now uid tr d = (Inl ValueError, d\<lparr>trades := trades d @ [?t]\<rparr>)"
    using assms by (rule create_order_market_unsplit)
  moreover have "t_id ?t \<notin> set (map t_id (trades d))"
    by (simp only: placed_row_def trade.simps fresh_id_notin not_False_eq_True)
  ultimately show ?thesis using assms(2)
    by (intro exI [of _ ?t]) (simp add: placed_row_def)
qed

text \<open>Claim C10, amended, at a market buy of \<^verbatim>\<open>BTCUSD\<close>, whose market price is 90.\<close>

theorem unsplit_symbol_leaves_open_row_witness:
  "create_order 5 6 7 (submission ''BTCUSD'' ''buy'' ''market'' (Finite 1 0) None) demo_db =
     (Inl ValueError,
      demo_db\<lparr>trades :=
        [\<lparr>t_id = 1, t_symbol = ''BTCUSD'', t_side = Some ''buy'', t_order_type = ''market'',
          t_amount = Finite 1 0, t_price = Some (Finite 45 1), t_status = ''open'',
          t_created_at = 5, t_executed_at = None, t_user_id = 7, t_bot_id = None\<rparr>]\<rparr>) \<and>
   portfolios (snd (create_order 5 6 7
       (submission ''BTCUSD'' ''buy'' ''market'' (Finite 1 0) None) demo_db)) = []"
proof -
  let ?tr = "submission ''BTCUSD'' ''buy'' ''market'' (Finite 1 0) None"
  have h1: "side ?tr = ''buy'' \<or> side ?tr = ''sell''" by (simp add: submission_def)
  have h2: "order_type ?tr = ''market''" by (simp add: submission_def)
  have h3: "find_market (symbol ?tr) (markets demo_db) = Some btcusd"
    by (simp add: submission_def demo_find_btcusd)
  have h4: "length (split_sep CHR ''/'' (symbol ?tr)) \<noteq> 2" by (simp add: submission_def)
  from unsplit_symbol_leaves_open_row [OF h1 h2 h3 h4, of 5 6 7]
  obtain t where t: "create_order 5 6 7 ?tr demo_db =
      (Inl ValueError, demo_db\<lparr>trades := trades demo_db @ [t]\<rparr>)"
    "t_status t = ''open''" "t_executed_at t = None" "t_symbol t = symbol ?tr"
    "t_side t = Some (side ?tr)" "t_order_type t = ''market''" "t_amount t = amount ?tr"
    "t_price t = Some (m_price btcusd)" "t_user_id t = 7"
    "portfolios (snd (create_order 5 6 7 ?tr demo_db)) = portfolios demo_db"
    by blast
  have "t_id t = 1 \<and> t_created_at t = 5 \<and> t_bot_id t = None \<and> trades demo_db = []"
    using t(1) create_order_market_unsplit [OF h1 h2 h3 h4, of 5 6 7]
    by (simp add: placed_row_def demo_db_def fresh_id_def)
  with t show ?thesis
    by (cases t) (simp add: submission_def btcusd_def demo_db_def)
qed


section \<open>Trade rows along a history of operations\<close>

lemma create_order_trades:
  "\<exists>new. trades (snd (create_order c n uid tr d)) = trades d @ new \<and>
     (\<forall>t\<in>set new. t_status t = ''open'' \<or> t_status t = ''filled'')"
proof (cases "(side tr = ''buy'' \<or> side tr = ''sell'') \<and>
    (order_type tr = ''market'' \<or> order_type tr = ''limit'' \<and> \<not> price_missing (price tr))")
  case False
  then have "snd (create_order c n uid tr d) = d"
    by (auto simp add: create_order_def)
  then show ?thesis by simp
next
  case valid: True
  show ?thesis
  proof (cases "find_market (symbol tr) (markets d)")
    case None
    with valid have "snd (create_order c n uid tr d) = d"
      by (auto simp add: create_order_def)
    then show ?thesis by simp
  next
    case (Some mkt)
    show ?thesis
    proof (cases "order_type tr = ''limit''")
      case True
      with valid Some have "trades (snd (create_order c n uid tr d)) =
          trades d @ [placed_row c uid tr mkt d]"
        by (simp add: create_order_limit)
      then show ?thesis by (simp add: placed_row_def)
    next
      case False
      with valid have m: "order_type tr = ''market''" by simp
      show ?thesis
      proof (cases "length (split_sep CHR ''/'' (symbol tr)) = 2")
        case True
        then obtain b q where "split_sep CHR ''/'' (symbol tr) = [b, q]"
          by (auto simp add: length_2_iff)
        with valid m Some have "trades (snd (create_order c n uid tr d)) =
            trades d @
              [(placed_row c uid tr mkt d)\<lparr>t_status := ''filled'', t_executed_at := Some n\<rparr>]"
          by (simp add: create_order_market)
        then show ?thesis by simp
      next
        case False
        with valid m Some have "trades (snd (create_order c n uid tr d)) =
            trades d @ [placed_row c uid tr mkt d]"
          by (simp add: create_order_market_unsplit)
        then show ?thesis by (simp add: placed_row_def)
      qed
    qed
  qed
qed

lemma run_bot_task_trades:
  "\<exists>new. trades (run_bot_task ev c n bot_id d) = trades d @ new \<and>
     (\<forall>t\<in>set new. t_status t = ''open'' \<or> t_status t = ''filled'')"
  by (auto simp add: run_bot_task_def Let_def split: option.splits binding.splits)

lemma perform_trades:
  "\<exists>new. trades (perform ev x d) = trades d @ new \<and>
     (\<forall>t\<in>set new. t_status t = ''open'' \<or> t_status t = ''filled'')"
proof (cases x)
  case (CreateOrder c n uid tr)
  then show ?thesis using create_order_trades [of c n uid tr d] by simp
next
  case (RunBotTask c n b)
  then show ?thesis using run_bot_task_trades [of ev c n b d] by simp
next
  case (StartBot uid b)
  then show ?thesis by (simp add: start_bot_def split: option.splits)
next
  case (StopBot uid b)
  then show ?thesis by (simp add: stop_bot_def split: option.splits)
qed

lemma perform_all_trades:
  "\<exists>new. trades (perform_all ev xs d) = trades d @ new \<and>
     (\<forall>t\<in>set new. t_status t = ''open'' \<or> t_status t = ''filled'')"
proof (induction xs arbitrary: d)
  case Nil
  show ?case by simp
next
  case (Cons x xs)
  from perform_trades [of ev x d] obtain n1 where
    n1: "trades (perform ev x d) = trades d @ n1"
      "\<forall>t\<in>set n1. t_status t = ''open'' \<or> t_status t = ''filled''" by blast
  from Cons.IH [of "perform ev x d"] obtain n2 where
    n2: "trades (perform_all ev xs (perform ev x d)) = trades (perform ev x d) @ n2"
      "\<forall>t\<in>set n2. t_status t = ''open'' \<or> t_status t = ''filled''" by blast
  from n1 n2 have "trades (perform_all ev (x # xs) d) = trades d @ (n1 @ n2) \<and>
      (\<forall>t\<in>set (n1 @ n2). t_status t = ''open'' \<or> t_status t = ''filled'')"
    by auto
  then show ?case by blast
qed

text \<open>
  Claim C8. Along any history of order submissions, bot starts and stops and bot tasks, the
  trade table only grows, and every row added has status open or filled: the rows that were
  there are never rewritten. So when the table starts with rows that are open or filled,
  every row stays open or filled, and none is ever canceled.
\<close>

theorem trade_status_never_canceled:
  "(\<exists>new. trades (perform_all ev xs d) = trades d @ new \<and>
      (\<forall>t\<in>set new. t_status t = ''open'' \<or> t_status t = ''filled'')) \<and>
   ((\<forall>t\<in>set (trades d). t_status t = ''open'' \<or> t_status t = ''filled'') \<longrightarrow>
    (\<forall>t\<in>set (trades (perform_all ev xs d)).
       (t_status t = ''open'' \<or> t_status t = ''filled'') \<and> t_status t \<noteq> ''canceled''))"
proof -
  from perform_all_trades [of ev xs d] obtain new where
    new: "trades (perform_all ev xs d) = trades d @ new"
      "\<forall>t\<in>set new. t_status t = ''open'' \<or> t_status t = ''filled''" by blast
  have "t_status t \<noteq> ''canceled''" if "t_status t = ''open'' \<or> t_status t = ''filled''" for t
    using that by auto
  with new show ?thesis by auto
qed

text \<open>
  Claim C8, on a history with a filled market order, an open limit order, a bot start with
  its task and a market order that fails after its row was stored.
\<close>

theorem trade_status_never_canceled_witness:
  "map t_status (trades (perform_all demo_env
      [CreateOrder 1 1 7 (submission ''BTC/USD'' ''buy'' ''market'' (Finite 1 1) None),
       CreateOrder 2 2 7 (submission ''BTC/USD'' ''sell'' ''limit'' (Finite 1 0)
         (Some (Finite 15 3))),
       StartBot 7 1,
       RunBotTask 3 3 1,
       CreateOrder 4 4 7 (submission ''BTCUSD'' ''buy'' ''market'' (Finite 1 0) None)] demo_db))
     = [''filled'', ''open'', ''filled'', ''open''] \<and>
   ''canceled'' \<notin> set (map t_status (trades (perform_all demo_env
      [CreateOrder 1 1 7 (submission ''BTC/USD'' ''buy'' ''market'' (Finite 1 1) None),
       CreateOrder 2 2 7 (submission ''BTC/USD'' ''sell'' ''limit'' (Finite 1 0)
         (Some (Finite 15 3))),
       StartBot 7 1,
       RunBotTask 3 3 1,
       CreateOrder 4 4 7 (submission ''BTCUSD'' ''buy'' ''market'' (Finite 1 0) None)] demo_db)))"
proof -
  let ?xs = "[CreateOrder 1 1 7 (submission ''BTC/USD'' ''buy'' ''market'' (Finite 1 1) None),
       CreateOrder 2 2 7 (submission ''BTC/USD'' ''sell'' ''limit'' (Finite 1 0)
         (Some (Finite 15 3))),
       StartBot 7 1,
       RunBotTask 3 3 1,
       CreateOrder 4 4 7 (submission ''BTCUSD'' ''buy'' ''market'' (Finite 1 0) None)]"
  have e: "\<forall>t\<in>set (trades demo_db). t_status t = ''open'' \<or> t_status t = ''filled''"
    by (simp add: demo_db_def)
  from trade_status_never_canceled [of demo_env ?xs demo_db] e
  have "\<forall>t\<in>set (trades (perform_all demo_env ?xs demo_db)). t_status t \<noteq> ''canceled''"
    by blast
  then have A: "''canceled'' \<notin> set (map t_status (trades (perform_all demo_env ?xs demo_db)))"
    by auto
  have B: "map t_status (trades (perform_all demo_env ?xs demo_db))
     = [''filled'', ''open'', ''filled'', ''open'']"
    by (simp add: create_order_def run_bot_task_def start_bot_def submission_def demo_db_def
        demo_bot_def eth_btc_def btc_usd_def btcusd_def find_market_def find_bot_def
        find_owned_bot_def price_missing_def fis_zero_def bot_trade_params_def demo_env_def
        demo_loads_def config_get_def py_float_def column_text_def Let_def)
  from A B show ?thesis by blast
qed


end
